theory Spec2Isabelle
  imports Main "HOL-Library.Word"
begin

section \<open>Errors, dynamic values, expression nodes\<close>

text \<open>
  Go \<open>error\<close> values. The three package-level errors of the dataset files are distinct
  values (two of them carry the same message); \<open>ErrIncompatibleDialects\<close> is the value
  built by \<open>fmt.Errorf\<close> in \<open>InsertDataset.FromQuery\<close>; \<open>ErrNilPointer\<close> is the run-time
  panic of a method reading a field through an invalid pointer; \<open>ErrOther\<close> is any other
  error value (one handed to \<open>SetError\<close> by the caller, for example).
  A nil \<open>error\<close> is \<open>None\<close> of \<open>error option\<close>.
\<close>

datatype error =
    ErrUnsupportedIntoType
  | ErrUnsupportedUpdateTableType
  | ErrBadFromArgument
  | ErrIncompatibleDialects string string
  | ErrInvalidColumnArgument
  | ErrNilPointer
  | ErrOther string

text \<open>
  Modelled from the spec: the expression hierarchy of package \<open>exp\<close>, which is not among
  the source files. The spec describes it as a closed, tagged set of immutable variants held
  by value (identifier, literal, column list, aliased, ordered column, common table
  expression, conflict descriptor).
\<close>

datatype expression =
    IdentifierExpression string
  | LiteralExpression string
  | ColumnListExpression "expression list"
  | AliasedExpression expression string
  | OrderedExpression expression bool
  | CommonTableExpression bool string expression
  | ConflictExpression string string

text \<open>Go's \<open>uint\<close> on a 64-bit platform.\<close>

type_synonym uint = "64 word"

text \<open>
  A value of type \<open>interface{}\<close>, as far as the type switches of the source tell its
  dynamic types apart: a string, an expression, or something else.
\<close>

datatype arg =
    NilArg
  | StringArg string
  | IntArg int
  | UintArg uint
  | BoolArg bool
  | ExprArg expression
  | RecordArg "(string \<times> arg) list"

text \<open>
  An \<open>exp.AppendableExpression\<close>: \<open>FromQuery\<close> tells a pointer to a \<open>SelectDataset\<close>
  (an address in the store of select datasets) from every other appendable expression.
\<close>

datatype appendable =
    SelectDatasetPtr nat
  | OtherAppendable expression

text \<open>
  Modelled from the spec: \<open>exp.ParseIdentifier\<close>, \<open>exp.NewCommonTableExpression\<close>,
  \<open>exp.NewColumnListExpression\<close> and the constructors \<open>L\<close> and \<open>T\<close>, none of which is
  among the source files. A plain name is parsed into an identifier; a column list takes
  names and already-built expressions in the order given, and any other kind of argument is
  a failure raised at once.
\<close>

definition ParseIdentifier :: "string \<Rightarrow> expression" where
  "ParseIdentifier s = IdentifierExpression s"

definition L :: "string \<Rightarrow> expression" where
  "L s = LiteralExpression s"

definition T :: "string \<Rightarrow> expression" where
  "T s = IdentifierExpression s"

definition NewCommonTableExpression :: "bool \<Rightarrow> string \<Rightarrow> expression \<Rightarrow> expression" where
  "NewCommonTableExpression recursive name subquery = CommonTableExpression recursive name subquery"

fun column_exprs :: "arg list \<Rightarrow> error + expression list" where
  "column_exprs [] = Inr []"
| "column_exprs (StringArg s # vals) =
     (case column_exprs vals of Inl e \<Rightarrow> Inl e | Inr cols \<Rightarrow> Inr (ParseIdentifier s # cols))"
| "column_exprs (ExprArg x # vals) =
     (case column_exprs vals of Inl e \<Rightarrow> Inl e | Inr cols \<Rightarrow> Inr (x # cols))"
| "column_exprs (_ # vals) = Inl ErrInvalidColumnArgument"

definition NewColumnListExpression :: "arg list \<Rightarrow> error + expression" where
  "NewColumnListExpression vals =
     (case column_exprs vals of Inl e \<Rightarrow> Inl e | Inr cols \<Rightarrow> Inr (ColumnListExpression cols))"

section \<open>The prepared-mode flag\<close>

text \<open>
  Modelled from the spec: the type \<open>prepared\<close> with \<open>Bool\<close> and \<open>preparedFromBool\<close>, declared
  outside the source files. The flag is three-valued: use the default, force prepared, force
  literal. \<open>preparedNoPreference\<close> is the value of a field left unset. The process-wide
  default is the parameter \<open>dflt\<close>.
\<close>

datatype prepared = preparedNoPreference | preparedEnabled | preparedDisabled

definition prepared_Bool :: "bool \<Rightarrow> prepared \<Rightarrow> bool" where
  "prepared_Bool dflt p = (p = preparedEnabled \<or> (p = preparedNoPreference \<and> dflt))"

definition preparedFromBool :: "bool \<Rightarrow> prepared" where
  "preparedFromBool b = (if b then preparedEnabled else preparedDisabled)"

section \<open>The SQL builder\<close>

text \<open>
  Modelled from the spec: \<open>sb.SQLBuilder\<close> (package \<open>internal/sb\<close> is not among the source
  files): an append-only text buffer, a parameter sequence, a placeholder counter and a sticky
  error. Once an error is recorded every write is a no-op, the first error is kept, and the
  final read reports the error with no text and no parameters.
\<close>

record sql_builder =
  sb_buf :: string
  sb_args :: "arg list"
  sb_isPrepared :: bool
  sb_currentArgPosition :: nat
  sb_err :: "error option"

definition NewSQLBuilder :: "bool \<Rightarrow> sql_builder" where
  "NewSQLBuilder p =
     \<lparr>sb_buf = [], sb_args = [], sb_isPrepared = p, sb_currentArgPosition = 1, sb_err = None\<rparr>"

definition sb_SetError :: "sql_builder \<Rightarrow> error \<Rightarrow> sql_builder" where
  "sb_SetError b e = (if sb_err b = None then b\<lparr>sb_err := Some e\<rparr> else b)"

definition sb_Write :: "sql_builder \<Rightarrow> string \<Rightarrow> sql_builder" where
  "sb_Write b s = (if sb_err b = None then b\<lparr>sb_buf := sb_buf b @ s\<rparr> else b)"

definition sb_ToSQL :: "sql_builder \<Rightarrow> string \<times> arg list \<times> error option" where
  "sb_ToSQL b =
     (case sb_err b of
        Some e \<Rightarrow> ([], [], Some e)
      | None \<Rightarrow> (sb_buf b, sb_args b, None))"

section \<open>Clause records\<close>

text \<open>
  Modelled from the spec: the clause records of package \<open>exp\<close> (not among the source files),
  one per statement kind. Every setter returns a new record and never fails; an absent field
  (\<open>None\<close>, or the empty slice) is a state of its own; a set replaces the whole field; an
  append adds to the existing sequence, or starts it when absent, in call order; a clear
  resets the field to absent. The fields of \<open>TruncateOptions\<close> are those the source assigns.
\<close>

record TruncateOptions =
  Cascade :: bool
  Restrict :: bool
  Identity :: string

record TruncateClauses =
  tc_tables :: "expression option"
  tc_options :: TruncateOptions

definition NewTruncateClauses :: TruncateClauses where
  "NewTruncateClauses =
     \<lparr>tc_tables = None, tc_options = \<lparr>Cascade = False, Restrict = False, Identity = []\<rparr>\<rparr>"

definition TruncateClauses_SetTable :: "TruncateClauses \<Rightarrow> expression \<Rightarrow> TruncateClauses" where
  "TruncateClauses_SetTable c tables = c\<lparr>tc_tables := Some tables\<rparr>"

definition TruncateClauses_Options :: "TruncateClauses \<Rightarrow> TruncateOptions" where
  "TruncateClauses_Options c = tc_options c"

definition TruncateClauses_SetOptions :: "TruncateClauses \<Rightarrow> TruncateOptions \<Rightarrow> TruncateClauses" where
  "TruncateClauses_SetOptions c opts = c\<lparr>tc_options := opts\<rparr>"

record InsertClauses =
  ic_commonTables :: "expression list"
  ic_cols :: "expression option"
  ic_into :: "expression option"
  ic_returning :: "expression option"
  ic_alias :: "expression option"
  ic_rows :: "arg list"
  ic_vals :: "arg list list"
  ic_from :: "appendable option"
  ic_conflict :: "expression option"

definition NewInsertClauses :: InsertClauses where
  "NewInsertClauses =
     \<lparr>ic_commonTables = [], ic_cols = None, ic_into = None, ic_returning = None,
      ic_alias = None, ic_rows = [], ic_vals = [], ic_from = None, ic_conflict = None\<rparr>"

definition InsertClauses_CommonTablesAppend :: "InsertClauses \<Rightarrow> expression \<Rightarrow> InsertClauses" where
  "InsertClauses_CommonTablesAppend c cte = c\<lparr>ic_commonTables := ic_commonTables c @ [cte]\<rparr>"

definition InsertClauses_SetInto :: "InsertClauses \<Rightarrow> expression \<Rightarrow> InsertClauses" where
  "InsertClauses_SetInto c into = c\<lparr>ic_into := Some into\<rparr>"

definition InsertClauses_SetCols :: "InsertClauses \<Rightarrow> expression option \<Rightarrow> InsertClauses" where
  "InsertClauses_SetCols c cl = c\<lparr>ic_cols := cl\<rparr>"

fun Columns :: "expression \<Rightarrow> expression list" where
  "Columns (ColumnListExpression cols) = cols"
| "Columns e = [e]"

definition InsertClauses_ColsAppend :: "InsertClauses \<Rightarrow> expression \<Rightarrow> InsertClauses" where
  "InsertClauses_ColsAppend c cl =
     c\<lparr>ic_cols := Some (ColumnListExpression
          ((case ic_cols c of None \<Rightarrow> [] | Some old \<Rightarrow> Columns old) @ Columns cl))\<rparr>"

definition InsertClauses_SetFrom :: "InsertClauses \<Rightarrow> appendable \<Rightarrow> InsertClauses" where
  "InsertClauses_SetFrom c ae = c\<lparr>ic_from := Some ae\<rparr>"

definition InsertClauses_ValsAppend :: "InsertClauses \<Rightarrow> arg list list \<Rightarrow> InsertClauses" where
  "InsertClauses_ValsAppend c vals = c\<lparr>ic_vals := ic_vals c @ vals\<rparr>"

definition InsertClauses_SetVals :: "InsertClauses \<Rightarrow> arg list list \<Rightarrow> InsertClauses" where
  "InsertClauses_SetVals c vals = c\<lparr>ic_vals := vals\<rparr>"

definition InsertClauses_SetRows :: "InsertClauses \<Rightarrow> arg list \<Rightarrow> InsertClauses" where
  "InsertClauses_SetRows c rows = c\<lparr>ic_rows := rows\<rparr>"

definition InsertClauses_SetReturning :: "InsertClauses \<Rightarrow> expression \<Rightarrow> InsertClauses" where
  "InsertClauses_SetReturning c cl = c\<lparr>ic_returning := Some cl\<rparr>"

definition InsertClauses_SetOnConflict :: "InsertClauses \<Rightarrow> expression option \<Rightarrow> InsertClauses" where
  "InsertClauses_SetOnConflict c conflict = c\<lparr>ic_conflict := conflict\<rparr>"

definition InsertClauses_SetAlias :: "InsertClauses \<Rightarrow> expression \<Rightarrow> InsertClauses" where
  "InsertClauses_SetAlias c alias = c\<lparr>ic_alias := Some alias\<rparr>"

definition InsertClauses_Alias :: "InsertClauses \<Rightarrow> expression option" where
  "InsertClauses_Alias c = ic_alias c"

definition InsertClauses_HasReturning :: "InsertClauses \<Rightarrow> bool" where
  "InsertClauses_HasReturning c = (ic_returning c \<noteq> None)"

record UpdateClauses =
  uc_commonTables :: "expression list"
  uc_table :: "expression option"
  uc_setValues :: "arg option"
  uc_from :: "expression option"
  uc_where :: "expression list option"
  uc_order :: "expression list option"
  uc_limit :: "arg option"
  uc_returning :: "expression option"

definition NewUpdateClauses :: UpdateClauses where
  "NewUpdateClauses =
     \<lparr>uc_commonTables = [], uc_table = None, uc_setValues = None, uc_from = None,
      uc_where = None, uc_order = None, uc_limit = None, uc_returning = None\<rparr>"

definition UpdateClauses_CommonTablesAppend :: "UpdateClauses \<Rightarrow> expression \<Rightarrow> UpdateClauses" where
  "UpdateClauses_CommonTablesAppend c cte = c\<lparr>uc_commonTables := uc_commonTables c @ [cte]\<rparr>"

definition UpdateClauses_SetTable :: "UpdateClauses \<Rightarrow> expression \<Rightarrow> UpdateClauses" where
  "UpdateClauses_SetTable c t = c\<lparr>uc_table := Some t\<rparr>"

definition UpdateClauses_SetSetValues :: "UpdateClauses \<Rightarrow> arg \<Rightarrow> UpdateClauses" where
  "UpdateClauses_SetSetValues c values = c\<lparr>uc_setValues := Some values\<rparr>"

definition UpdateClauses_SetFrom :: "UpdateClauses \<Rightarrow> expression \<Rightarrow> UpdateClauses" where
  "UpdateClauses_SetFrom c cl = c\<lparr>uc_from := Some cl\<rparr>"

definition append_absent :: "'a list option \<Rightarrow> 'a list \<Rightarrow> 'a list option" where
  "append_absent old xs = (case old of None \<Rightarrow> Some xs | Some ys \<Rightarrow> Some (ys @ xs))"

definition prepend_absent :: "'a list option \<Rightarrow> 'a list \<Rightarrow> 'a list option" where
  "prepend_absent old xs = (case old of None \<Rightarrow> Some xs | Some ys \<Rightarrow> Some (xs @ ys))"

definition UpdateClauses_WhereAppend :: "UpdateClauses \<Rightarrow> expression list \<Rightarrow> UpdateClauses" where
  "UpdateClauses_WhereAppend c expressions = c\<lparr>uc_where := append_absent (uc_where c) expressions\<rparr>"

definition UpdateClauses_ClearWhere :: "UpdateClauses \<Rightarrow> UpdateClauses" where
  "UpdateClauses_ClearWhere c = c\<lparr>uc_where := None\<rparr>"

definition UpdateClauses_SetOrder :: "UpdateClauses \<Rightarrow> expression list \<Rightarrow> UpdateClauses" where
  "UpdateClauses_SetOrder c order = c\<lparr>uc_order := Some order\<rparr>"

definition UpdateClauses_OrderAppend :: "UpdateClauses \<Rightarrow> expression list \<Rightarrow> UpdateClauses" where
  "UpdateClauses_OrderAppend c order = c\<lparr>uc_order := append_absent (uc_order c) order\<rparr>"

definition UpdateClauses_OrderPrepend :: "UpdateClauses \<Rightarrow> expression list \<Rightarrow> UpdateClauses" where
  "UpdateClauses_OrderPrepend c order = c\<lparr>uc_order := prepend_absent (uc_order c) order\<rparr>"

definition UpdateClauses_ClearOrder :: "UpdateClauses \<Rightarrow> UpdateClauses" where
  "UpdateClauses_ClearOrder c = c\<lparr>uc_order := None\<rparr>"

definition UpdateClauses_SetLimit :: "UpdateClauses \<Rightarrow> arg \<Rightarrow> UpdateClauses" where
  "UpdateClauses_SetLimit c limit = c\<lparr>uc_limit := Some limit\<rparr>"

definition UpdateClauses_ClearLimit :: "UpdateClauses \<Rightarrow> UpdateClauses" where
  "UpdateClauses_ClearLimit c = c\<lparr>uc_limit := None\<rparr>"

definition UpdateClauses_SetReturning :: "UpdateClauses \<Rightarrow> expression \<Rightarrow> UpdateClauses" where
  "UpdateClauses_SetReturning c cl = c\<lparr>uc_returning := Some cl\<rparr>"

definition UpdateClauses_HasReturning :: "UpdateClauses \<Rightarrow> bool" where
  "UpdateClauses_HasReturning c = (uc_returning c \<noteq> None)"

record DeleteClauses =
  dc_commonTables :: "expression list"
  dc_from :: "expression option"
  dc_where :: "expression list option"
  dc_order :: "expression list option"
  dc_limit :: "arg option"
  dc_returning :: "expression option"

definition NewDeleteClauses :: DeleteClauses where
  "NewDeleteClauses =
     \<lparr>dc_commonTables = [], dc_from = None, dc_where = None, dc_order = None,
      dc_limit = None, dc_returning = None\<rparr>"

definition DeleteClauses_CommonTablesAppend :: "DeleteClauses \<Rightarrow> expression \<Rightarrow> DeleteClauses" where
  "DeleteClauses_CommonTablesAppend c cte = c\<lparr>dc_commonTables := dc_commonTables c @ [cte]\<rparr>"

definition DeleteClauses_SetFrom :: "DeleteClauses \<Rightarrow> expression \<Rightarrow> DeleteClauses" where
  "DeleteClauses_SetFrom c t = c\<lparr>dc_from := Some t\<rparr>"

definition DeleteClauses_WhereAppend :: "DeleteClauses \<Rightarrow> expression list \<Rightarrow> DeleteClauses" where
  "DeleteClauses_WhereAppend c expressions = c\<lparr>dc_where := append_absent (dc_where c) expressions\<rparr>"

definition DeleteClauses_ClearWhere :: "DeleteClauses \<Rightarrow> DeleteClauses" where
  "DeleteClauses_ClearWhere c = c\<lparr>dc_where := None\<rparr>"

definition DeleteClauses_SetOrder :: "DeleteClauses \<Rightarrow> expression list \<Rightarrow> DeleteClauses" where
  "DeleteClauses_SetOrder c order = c\<lparr>dc_order := Some order\<rparr>"

definition DeleteClauses_OrderAppend :: "DeleteClauses \<Rightarrow> expression list \<Rightarrow> DeleteClauses" where
  "DeleteClauses_OrderAppend c order = c\<lparr>dc_order := append_absent (dc_order c) order\<rparr>"

definition DeleteClauses_OrderPrepend :: "DeleteClauses \<Rightarrow> expression list \<Rightarrow> DeleteClauses" where
  "DeleteClauses_OrderPrepend c order = c\<lparr>dc_order := prepend_absent (dc_order c) order\<rparr>"

definition DeleteClauses_ClearOrder :: "DeleteClauses \<Rightarrow> DeleteClauses" where
  "DeleteClauses_ClearOrder c = c\<lparr>dc_order := None\<rparr>"

definition DeleteClauses_SetLimit :: "DeleteClauses \<Rightarrow> arg \<Rightarrow> DeleteClauses" where
  "DeleteClauses_SetLimit c limit = c\<lparr>dc_limit := Some limit\<rparr>"

definition DeleteClauses_ClearLimit :: "DeleteClauses \<Rightarrow> DeleteClauses" where
  "DeleteClauses_ClearLimit c = c\<lparr>dc_limit := None\<rparr>"

definition DeleteClauses_SetReturning :: "DeleteClauses \<Rightarrow> expression \<Rightarrow> DeleteClauses" where
  "DeleteClauses_SetReturning c cl = c\<lparr>dc_returning := Some cl\<rparr>"

definition DeleteClauses_HasReturning :: "DeleteClauses \<Rightarrow> bool" where
  "DeleteClauses_HasReturning c = (dc_returning c \<noteq> None)"

text \<open>
  Modelled from the spec: the clauses of a SELECT statement, whose builder is outside the
  source files and used here only as the row source of an INSERT.
\<close>

record SelectClauses =
  sc_select :: "expression list"
  sc_from :: "expression option"
  sc_where :: "expression list option"

section \<open>Dialects and the environment\<close>

text \<open>
  The interface \<open>SQLDialect\<close>, the registry lookup \<open>GetDialect\<close> and the process-wide prepared
  default are declared outside the source files, so they are parameters. A dialect is a value
  of the type parameter \<open>'d\<close>: the identity of a registered dialect, which is what Go's
  \<open>==\<close> and \<open>!=\<close> compare on interface values holding pointers. The environment gives
  the parameters: the lookup by name, the method \<open>Dialect()\<close> returning a dialect's name, and
  one rendering entry point per statement kind, each from a builder and a clause record to the
  builder written to.

  Modelled from the spec: how a dialect renders the row source of an INSERT. Rendering
  consults the row source if present, and a statement embedded in another is written through
  its append-to-external-builder operation; so \<open>ToInsertSQL\<close> receives that operation of the
  row source as an argument and decides where in the text to run it.
\<close>

record 'd env =
  GetDialect :: "string \<Rightarrow> 'd"
  DialectName :: "'d \<Rightarrow> string"
  defaultPrepared :: bool
  ToTruncateSQL :: "'d \<Rightarrow> sql_builder \<Rightarrow> TruncateClauses \<Rightarrow> sql_builder"
  ToInsertSQL :: "'d \<Rightarrow> (sql_builder \<Rightarrow> sql_builder) \<Rightarrow> sql_builder \<Rightarrow> InsertClauses \<Rightarrow> sql_builder"
  ToUpdateSQL :: "'d \<Rightarrow> sql_builder \<Rightarrow> UpdateClauses \<Rightarrow> sql_builder"
  ToDeleteSQL :: "'d \<Rightarrow> sql_builder \<Rightarrow> DeleteClauses \<Rightarrow> sql_builder"
  ToSelectSQL :: "'d \<Rightarrow> sql_builder \<Rightarrow> SelectClauses \<Rightarrow> sql_builder"
  AppendOther :: "expression \<Rightarrow> sql_builder \<Rightarrow> sql_builder"

section \<open>Datasets\<close>

text \<open>
  \<open>TruncateDataset\<close>, \<open>InsertDataset\<close>, \<open>UpdateDataset\<close> and \<open>DeleteDataset\<close> are four structs
  with the same five fields, differing in the type of \<open>clauses\<close>; one record with the clause
  type as a parameter stands for all of them. \<open>queryFactory\<close> is an opaque handle (nil in a
  dataset made by the package-level constructors). \<open>SelectDataset\<close> is outside the source
  files; the spec calls it structurally analogous, and \<open>FromQuery\<close> reads and writes its
  field \<open>dialect\<close>.
\<close>

record ('d, 'c) dataset =
  dialect :: 'd
  clauses :: 'c
  isPrepared :: prepared
  queryFactory :: "nat option"
  err :: "error option"

type_synonym 'd TruncateDataset = "('d, TruncateClauses) dataset"
type_synonym 'd InsertDataset = "('d, InsertClauses) dataset"
type_synonym 'd UpdateDataset = "('d, UpdateClauses) dataset"
type_synonym 'd DeleteDataset = "('d, DeleteClauses) dataset"
type_synonym 'd SelectDataset = "('d, SelectClauses) dataset"

subsection \<open>Methods with the same body in all four files\<close>

text \<open>
  Each function gives the struct that the returned pointer points to; the receiver is the
  struct read through the receiver pointer.
\<close>

definition copy :: "('d, 'c) dataset \<Rightarrow> 'c \<Rightarrow> ('d, 'c) dataset" where
  "copy ds c =
     \<lparr>dialect = dialect ds, clauses = c, isPrepared = isPrepared ds,
      queryFactory = queryFactory ds, err = err ds\<rparr>"

definition GetClauses :: "('d, 'c) dataset \<Rightarrow> 'c" where
  "GetClauses ds = clauses ds"

definition Prepared :: "('d, 'c) dataset \<Rightarrow> bool \<Rightarrow> ('d, 'c) dataset" where
  "Prepared ds p = (copy ds (clauses ds))\<lparr>isPrepared := preparedFromBool p\<rparr>"

definition IsPrepared :: "'d env \<Rightarrow> ('d, 'c) dataset \<Rightarrow> bool" where
  "IsPrepared env ds = prepared_Bool (defaultPrepared env) (isPrepared ds)"

definition WithDialect :: "'d env \<Rightarrow> ('d, 'c) dataset \<Rightarrow> string \<Rightarrow> ('d, 'c) dataset" where
  "WithDialect env ds dl = (copy ds (GetClauses ds))\<lparr>dialect := GetDialect env dl\<rparr>"

definition Dialect :: "('d, 'c) dataset \<Rightarrow> 'd" where
  "Dialect ds = dialect ds"

definition SetDialect :: "('d, 'c) dataset \<Rightarrow> 'd \<Rightarrow> ('d, 'c) dataset" where
  "SetDialect ds d = (copy ds (GetClauses ds))\<lparr>dialect := d\<rparr>"

definition Clone :: "('d, 'c) dataset \<Rightarrow> ('d, 'c) dataset" where
  "Clone ds = copy ds (clauses ds)"

definition Error :: "('d, 'c) dataset \<Rightarrow> error option" where
  "Error ds = err ds"

subsection \<open>The store\<close>

text \<open>
  Every dataset is handled through a pointer. A store holds the datasets of one kind; a
  pointer is an index into it. \<open>new\<close> is Go's \<open>&T{...}\<close>: it puts the struct in a fresh cell
  past every existing one and returns the new pointer.

  \<open>SetError\<close> is the one method that writes through its receiver: it assigns the field
  \<open>err\<close> of the struct the receiver points to, when that field is nil, and returns the
  receiver pointer.
\<close>

definition new :: "'a list \<Rightarrow> 'a \<Rightarrow> 'a list \<times> nat" where
  "new h v = (h @ [v], length h)"

definition new_result :: "'a list \<Rightarrow> error + 'a \<Rightarrow> error + ('a list \<times> nat)" where
  "new_result h r = (case r of Inl e \<Rightarrow> Inl e | Inr v \<Rightarrow> Inr (new h v))"

definition SetError :: "('d, 'c) dataset list \<Rightarrow> nat \<Rightarrow> error option \<Rightarrow> ('d, 'c) dataset list \<times> nat" where
  "SetError h p e = ((if err (h ! p) = None then h[p := (h ! p)\<lparr>err := e\<rparr>] else h), p)"

subsection \<open>TruncateDataset\<close>

definition newTruncateDataset :: "'d env \<Rightarrow> string \<Rightarrow> nat option \<Rightarrow> 'd TruncateDataset" where
  "newTruncateDataset env d qf =
     \<lparr>dialect = GetDialect env d, clauses = NewTruncateClauses,
      isPrepared = preparedNoPreference, queryFactory = qf, err = None\<rparr>"

definition TruncateDataset_Table :: "'d TruncateDataset \<Rightarrow> arg list \<Rightarrow> error + 'd TruncateDataset" where
  "TruncateDataset_Table td tables =
     (case NewColumnListExpression tables of
        Inl e \<Rightarrow> Inl e
      | Inr cl \<Rightarrow> Inr (copy td (TruncateClauses_SetTable (clauses td) cl)))"

definition Truncate :: "'d env \<Rightarrow> arg list \<Rightarrow> error + 'd TruncateDataset" where
  "Truncate env tables = TruncateDataset_Table (newTruncateDataset env ''default'' None) tables"

definition TruncateDataset_Cascade :: "'d TruncateDataset \<Rightarrow> 'd TruncateDataset" where
  "TruncateDataset_Cascade td =
     (let opts = TruncateClauses_Options (clauses td);
          opts = opts\<lparr>Cascade := True\<rparr>
      in copy td (TruncateClauses_SetOptions (clauses td) opts))"

definition TruncateDataset_NoCascade :: "'d TruncateDataset \<Rightarrow> 'd TruncateDataset" where
  "TruncateDataset_NoCascade td =
     (let opts = TruncateClauses_Options (clauses td);
          opts = opts\<lparr>Cascade := False\<rparr>
      in copy td (TruncateClauses_SetOptions (clauses td) opts))"

definition TruncateDataset_Restrict :: "'d TruncateDataset \<Rightarrow> 'd TruncateDataset" where
  "TruncateDataset_Restrict td =
     (let opts = TruncateClauses_Options (clauses td);
          opts = opts\<lparr>Restrict := True\<rparr>
      in copy td (TruncateClauses_SetOptions (clauses td) opts))"

definition TruncateDataset_NoRestrict :: "'d TruncateDataset \<Rightarrow> 'd TruncateDataset" where
  "TruncateDataset_NoRestrict td =
     (let opts = TruncateClauses_Options (clauses td);
          opts = opts\<lparr>Restrict := False\<rparr>
      in copy td (TruncateClauses_SetOptions (clauses td) opts))"

definition TruncateDataset_Identity :: "'d TruncateDataset \<Rightarrow> string \<Rightarrow> 'd TruncateDataset" where
  "TruncateDataset_Identity td identity =
     (let opts = TruncateClauses_Options (clauses td);
          opts = opts\<lparr>Identity := identity\<rparr>
      in copy td (TruncateClauses_SetOptions (clauses td) opts))"

definition truncateSQLBuilder :: "'d env \<Rightarrow> 'd TruncateDataset \<Rightarrow> sql_builder" where
  "truncateSQLBuilder env td =
     (let buf = NewSQLBuilder (prepared_Bool (defaultPrepared env) (isPrepared td))
      in case err td of
           Some e \<Rightarrow> sb_SetError buf e
         | None \<Rightarrow> ToTruncateSQL env (dialect td) buf (clauses td))"

definition TruncateDataset_ToSQL :: "'d env \<Rightarrow> 'd TruncateDataset \<Rightarrow> string \<times> arg list \<times> error option" where
  "TruncateDataset_ToSQL env td = sb_ToSQL (truncateSQLBuilder env td)"

definition TruncateDataset_MustToSQL :: "'d env \<Rightarrow> 'd TruncateDataset \<Rightarrow> error + (string \<times> arg list)" where
  "TruncateDataset_MustToSQL env td =
     (case sb_ToSQL (truncateSQLBuilder env td) of
        (sql, params, Some e) \<Rightarrow> Inl e
      | (sql, params, None) \<Rightarrow> Inr (sql, params))"

text \<open>
  A call of one of the mutators of the exposed surface on the dataset at pointer \<open>p\<close>:
  the result is the panic value, or the store after the call with the returned pointer.
\<close>

datatype 'd truncate_call =
    T_WithDialect string
  | T_Prepared bool
  | T_SetDialect 'd
  | T_Table "arg list"
  | T_Cascade
  | T_NoCascade
  | T_Restrict
  | T_NoRestrict
  | T_Identity string
  | T_SetError "error option"

fun truncate_step ::
  "'d env \<Rightarrow> 'd TruncateDataset list \<Rightarrow> nat \<Rightarrow> 'd truncate_call \<Rightarrow> error + ('d TruncateDataset list \<times> nat)" where
  "truncate_step env h p (T_WithDialect dl) = Inr (new h (WithDialect env (h ! p) dl))"
| "truncate_step env h p (T_Prepared b) = Inr (new h (Prepared (h ! p) b))"
| "truncate_step env h p (T_SetDialect d) = Inr (new h (SetDialect (h ! p) d))"
| "truncate_step env h p (T_Table tables) = new_result h (TruncateDataset_Table (h ! p) tables)"
| "truncate_step env h p T_Cascade = Inr (new h (TruncateDataset_Cascade (h ! p)))"
| "truncate_step env h p T_NoCascade = Inr (new h (TruncateDataset_NoCascade (h ! p)))"
| "truncate_step env h p T_Restrict = Inr (new h (TruncateDataset_Restrict (h ! p)))"
| "truncate_step env h p T_NoRestrict = Inr (new h (TruncateDataset_NoRestrict (h ! p)))"
| "truncate_step env h p (T_Identity s) = Inr (new h (TruncateDataset_Identity (h ! p) s))"
| "truncate_step env h p (T_SetError e) = Inr (SetError h p e)"

definition TruncateDataset_call ::
  "'d env \<Rightarrow> 'd TruncateDataset list \<Rightarrow> nat \<Rightarrow> 'd truncate_call \<Rightarrow> error + ('d TruncateDataset list \<times> nat)" where
  "TruncateDataset_call env h p c =
     (if p < length h then truncate_step env h p c else Inl ErrNilPointer)"

subsection \<open>InsertDataset\<close>

definition newInsertDataset :: "'d env \<Rightarrow> string \<Rightarrow> nat option \<Rightarrow> 'd InsertDataset" where
  "newInsertDataset env d qf =
     \<lparr>dialect = GetDialect env d, clauses = NewInsertClauses,
      isPrepared = preparedNoPreference, queryFactory = qf, err = None\<rparr>"

definition InsertDataset_With :: "'d InsertDataset \<Rightarrow> string \<Rightarrow> expression \<Rightarrow> 'd InsertDataset" where
  "InsertDataset_With id' name subquery =
     copy id' (InsertClauses_CommonTablesAppend (clauses id') (NewCommonTableExpression False name subquery))"

definition InsertDataset_WithRecursive :: "'d InsertDataset \<Rightarrow> string \<Rightarrow> expression \<Rightarrow> 'd InsertDataset" where
  "InsertDataset_WithRecursive id' name subquery =
     copy id' (InsertClauses_CommonTablesAppend (clauses id') (NewCommonTableExpression True name subquery))"

definition InsertDataset_Into :: "'d InsertDataset \<Rightarrow> arg \<Rightarrow> error + 'd InsertDataset" where
  "InsertDataset_Into id' into =
     (case into of
        ExprArg t \<Rightarrow> Inr (copy id' (InsertClauses_SetInto (clauses id') t))
      | StringArg t \<Rightarrow> Inr (copy id' (InsertClauses_SetInto (clauses id') (ParseIdentifier t)))
      | _ \<Rightarrow> Inl ErrUnsupportedIntoType)"

definition Insert :: "'d env \<Rightarrow> arg \<Rightarrow> error + 'd InsertDataset" where
  "Insert env table = InsertDataset_Into (newInsertDataset env ''default'' None) table"

definition InsertDataset_Cols :: "'d InsertDataset \<Rightarrow> arg list \<Rightarrow> error + 'd InsertDataset" where
  "InsertDataset_Cols id' cols =
     (case NewColumnListExpression cols of
        Inl e \<Rightarrow> Inl e
      | Inr cl \<Rightarrow> Inr (copy id' (InsertClauses_SetCols (clauses id') (Some cl))))"

definition InsertDataset_ClearCols :: "'d InsertDataset \<Rightarrow> 'd InsertDataset" where
  "InsertDataset_ClearCols id' = copy id' (InsertClauses_SetCols (clauses id') None)"

definition InsertDataset_ColsAppend :: "'d InsertDataset \<Rightarrow> arg list \<Rightarrow> error + 'd InsertDataset" where
  "InsertDataset_ColsAppend id' cols =
     (case NewColumnListExpression cols of
        Inl e \<Rightarrow> Inl e
      | Inr cl \<Rightarrow> Inr (copy id' (InsertClauses_ColsAppend (clauses id') cl)))"

text \<open>
  \<open>FromQuery\<close> reads the argument through its pointer when it is a \<open>SelectDataset\<close>, panics
  on incompatible dialects, and otherwise assigns the field \<open>dialect\<close> of the struct the
  argument points to, in the store of select datasets, before copying the receiver.
\<close>

definition InsertDataset_FromQuery ::
  "'d env \<Rightarrow> 'd SelectDataset list \<Rightarrow> 'd InsertDataset \<Rightarrow> appendable
     \<Rightarrow> error + ('d SelectDataset list \<times> 'd InsertDataset)" where
  "InsertDataset_FromQuery env hs id' frm =
     (case frm of
        SelectDatasetPtr q \<Rightarrow>
          (if q < length hs then
             (let sds = hs ! q in
              if dialect sds \<noteq> GetDialect env ''default'' \<and> Dialect id' \<noteq> dialect sds
              then Inl (ErrIncompatibleDialects (DialectName env (dialect id')) (DialectName env (dialect sds)))
              else Inr (hs[q := sds\<lparr>dialect := dialect id'\<rparr>],
                        copy id' (InsertClauses_SetFrom (clauses id') frm)))
           else Inl ErrNilPointer)
      | OtherAppendable x \<Rightarrow> Inr (hs, copy id' (InsertClauses_SetFrom (clauses id') frm)))"

definition InsertDataset_Vals :: "'d InsertDataset \<Rightarrow> arg list list \<Rightarrow> 'd InsertDataset" where
  "InsertDataset_Vals id' vals = copy id' (InsertClauses_ValsAppend (clauses id') vals)"

definition InsertDataset_ClearVals :: "'d InsertDataset \<Rightarrow> 'd InsertDataset" where
  "InsertDataset_ClearVals id' = copy id' (InsertClauses_SetVals (clauses id') [])"

definition InsertDataset_Rows :: "'d InsertDataset \<Rightarrow> arg list \<Rightarrow> 'd InsertDataset" where
  "InsertDataset_Rows id' rows = copy id' (InsertClauses_SetRows (clauses id') rows)"

definition InsertDataset_ClearRows :: "'d InsertDataset \<Rightarrow> 'd InsertDataset" where
  "InsertDataset_ClearRows id' = copy id' (InsertClauses_SetRows (clauses id') [])"

definition InsertDataset_Returning :: "'d InsertDataset \<Rightarrow> arg list \<Rightarrow> error + 'd InsertDataset" where
  "InsertDataset_Returning id' returning =
     (case NewColumnListExpression returning of
        Inl e \<Rightarrow> Inl e
      | Inr cl \<Rightarrow> Inr (copy id' (InsertClauses_SetReturning (clauses id') cl)))"

definition InsertDataset_OnConflict :: "'d InsertDataset \<Rightarrow> expression option \<Rightarrow> 'd InsertDataset" where
  "InsertDataset_OnConflict id' conflict = copy id' (InsertClauses_SetOnConflict (clauses id') conflict)"

definition InsertDataset_ClearOnConflict :: "'d InsertDataset \<Rightarrow> 'd InsertDataset" where
  "InsertDataset_ClearOnConflict id' = InsertDataset_OnConflict id' None"

definition InsertDataset_As :: "'d InsertDataset \<Rightarrow> string \<Rightarrow> 'd InsertDataset" where
  "InsertDataset_As id' alias = copy id' (InsertClauses_SetAlias (clauses id') (T alias))"

definition InsertDataset_GetAs :: "'d InsertDataset \<Rightarrow> expression option" where
  "InsertDataset_GetAs id' = InsertClauses_Alias (clauses id')"

definition InsertDataset_ReturnsColumns :: "'d InsertDataset \<Rightarrow> bool" where
  "InsertDataset_ReturnsColumns id' = InsertClauses_HasReturning (clauses id')"

text \<open>
  Modelled from the spec: \<open>SelectDataset.AppendSQL\<close>, the append-to-external-builder
  operation of the SELECT builder, with the same contract as the three in the source files:
  a sticky error goes into the caller's builder, otherwise the dataset's own dialect renders
  its clauses into it.
\<close>

definition SelectDataset_AppendSQL :: "'d env \<Rightarrow> 'd SelectDataset \<Rightarrow> sql_builder \<Rightarrow> sql_builder" where
  "SelectDataset_AppendSQL env sds b =
     (case err sds of
        Some e \<Rightarrow> sb_SetError b e
      | None \<Rightarrow> ToSelectSQL env (dialect sds) b (GetClauses sds))"

text \<open>
  The call \<open>id.dialect.ToInsertSQL(b, clauses)\<close> in a store of select datasets: the dialect
  is handed the append operation of the row source, read through the row source's pointer
  at rendering time. A pointer stored by \<open>FromQuery\<close> is valid, and stores only grow.
\<close>

definition row_source_AppendSQL ::
  "'d env \<Rightarrow> 'd SelectDataset list \<Rightarrow> appendable option \<Rightarrow> sql_builder \<Rightarrow> sql_builder" where
  "row_source_AppendSQL env hs src =
     (case src of
        None \<Rightarrow> (\<lambda>b. b)
      | Some (SelectDatasetPtr q) \<Rightarrow> SelectDataset_AppendSQL env (hs ! q)
      | Some (OtherAppendable x) \<Rightarrow> AppendOther env x)"

definition dialect_ToInsertSQL ::
  "'d env \<Rightarrow> 'd SelectDataset list \<Rightarrow> 'd \<Rightarrow> sql_builder \<Rightarrow> InsertClauses \<Rightarrow> sql_builder" where
  "dialect_ToInsertSQL env hs d b c = ToInsertSQL env d (row_source_AppendSQL env hs (ic_from c)) b c"

definition insertSQLBuilder :: "'d env \<Rightarrow> 'd SelectDataset list \<Rightarrow> 'd InsertDataset \<Rightarrow> sql_builder" where
  "insertSQLBuilder env hs id' =
     (let buf = NewSQLBuilder (prepared_Bool (defaultPrepared env) (isPrepared id'))
      in case err id' of
           Some e \<Rightarrow> sb_SetError buf e
         | None \<Rightarrow> dialect_ToInsertSQL env hs (dialect id') buf (clauses id'))"

definition InsertDataset_ToSQL ::
  "'d env \<Rightarrow> 'd SelectDataset list \<Rightarrow> 'd InsertDataset \<Rightarrow> string \<times> arg list \<times> error option" where
  "InsertDataset_ToSQL env hs id' = sb_ToSQL (insertSQLBuilder env hs id')"

definition InsertDataset_MustToSQL ::
  "'d env \<Rightarrow> 'd SelectDataset list \<Rightarrow> 'd InsertDataset \<Rightarrow> error + (string \<times> arg list)" where
  "InsertDataset_MustToSQL env hs id' =
     (case sb_ToSQL (insertSQLBuilder env hs id') of
        (sql, params, Some e) \<Rightarrow> Inl e
      | (sql, params, None) \<Rightarrow> Inr (sql, params))"

definition InsertDataset_AppendSQL ::
  "'d env \<Rightarrow> 'd SelectDataset list \<Rightarrow> 'd InsertDataset \<Rightarrow> sql_builder \<Rightarrow> sql_builder" where
  "InsertDataset_AppendSQL env hs id' b =
     (case err id' of
        Some e \<Rightarrow> sb_SetError b e
      | None \<Rightarrow> dialect_ToInsertSQL env hs (dialect id') b (GetClauses id'))"

datatype 'd insert_call =
    I_Prepared bool
  | I_WithDialect string
  | I_SetDialect 'd
  | I_With string expression
  | I_WithRecursive string expression
  | I_Into arg
  | I_Cols "arg list"
  | I_ClearCols
  | I_ColsAppend "arg list"
  | I_FromQuery appendable
  | I_Vals "arg list list"
  | I_ClearVals
  | I_Rows "arg list"
  | I_ClearRows
  | I_Returning "arg list"
  | I_OnConflict "expression option"
  | I_ClearOnConflict
  | I_As string
  | I_SetError "error option"

text \<open>
  A call on the insert dataset at pointer \<open>p\<close>, in a store of insert datasets \<open>hi\<close> and a
  store of select datasets \<open>hs\<close>. Only \<open>FromQuery\<close> touches the second store.
\<close>

definition new_insert ::
  "'d InsertDataset list \<Rightarrow> 'd SelectDataset list \<Rightarrow> error + 'd InsertDataset
     \<Rightarrow> error + ('d InsertDataset list \<times> 'd SelectDataset list \<times> nat)" where
  "new_insert hi hs r =
     (case r of Inl e \<Rightarrow> Inl e | Inr v \<Rightarrow> Inr (fst (new hi v), hs, snd (new hi v)))"

fun insert_step ::
  "'d env \<Rightarrow> 'd InsertDataset list \<Rightarrow> 'd SelectDataset list \<Rightarrow> nat \<Rightarrow> 'd insert_call
     \<Rightarrow> error + ('d InsertDataset list \<times> 'd SelectDataset list \<times> nat)" where
  "insert_step env hi hs p (I_Prepared b) = new_insert hi hs (Inr (Prepared (hi ! p) b))"
| "insert_step env hi hs p (I_WithDialect dl) = new_insert hi hs (Inr (WithDialect env (hi ! p) dl))"
| "insert_step env hi hs p (I_SetDialect d) = new_insert hi hs (Inr (SetDialect (hi ! p) d))"
| "insert_step env hi hs p (I_With name subquery) =
     new_insert hi hs (Inr (InsertDataset_With (hi ! p) name subquery))"
| "insert_step env hi hs p (I_WithRecursive name subquery) =
     new_insert hi hs (Inr (InsertDataset_WithRecursive (hi ! p) name subquery))"
| "insert_step env hi hs p (I_Into into) = new_insert hi hs (InsertDataset_Into (hi ! p) into)"
| "insert_step env hi hs p (I_Cols cols) = new_insert hi hs (InsertDataset_Cols (hi ! p) cols)"
| "insert_step env hi hs p I_ClearCols = new_insert hi hs (Inr (InsertDataset_ClearCols (hi ! p)))"
| "insert_step env hi hs p (I_ColsAppend cols) =
     new_insert hi hs (InsertDataset_ColsAppend (hi ! p) cols)"
| "insert_step env hi hs p (I_FromQuery frm) =
     (case InsertDataset_FromQuery env hs (hi ! p) frm of
        Inl e \<Rightarrow> Inl e
      | Inr (hs', v) \<Rightarrow> new_insert hi hs' (Inr v))"
| "insert_step env hi hs p (I_Vals vals) = new_insert hi hs (Inr (InsertDataset_Vals (hi ! p) vals))"
| "insert_step env hi hs p I_ClearVals = new_insert hi hs (Inr (InsertDataset_ClearVals (hi ! p)))"
| "insert_step env hi hs p (I_Rows rows) = new_insert hi hs (Inr (InsertDataset_Rows (hi ! p) rows))"
| "insert_step env hi hs p I_ClearRows = new_insert hi hs (Inr (InsertDataset_ClearRows (hi ! p)))"
| "insert_step env hi hs p (I_Returning returning) =
     new_insert hi hs (InsertDataset_Returning (hi ! p) returning)"
| "insert_step env hi hs p (I_OnConflict conflict) =
     new_insert hi hs (Inr (InsertDataset_OnConflict (hi ! p) conflict))"
| "insert_step env hi hs p I_ClearOnConflict =
     new_insert hi hs (Inr (InsertDataset_ClearOnConflict (hi ! p)))"
| "insert_step env hi hs p (I_As alias) = new_insert hi hs (Inr (InsertDataset_As (hi ! p) alias))"
| "insert_step env hi hs p (I_SetError e) = Inr (fst (SetError hi p e), hs, snd (SetError hi p e))"

text \<open>
  On an invalid receiver a method panics where it first reads a field of the receiver.
  \<open>Into\<close> runs its type switch before any such read, so a rejected argument panics with
  \<open>ErrUnsupportedIntoType\<close> even then.
\<close>

fun insert_nil_receiver :: "'d insert_call \<Rightarrow> error" where
  "insert_nil_receiver (I_Into (ExprArg t)) = ErrNilPointer"
| "insert_nil_receiver (I_Into (StringArg t)) = ErrNilPointer"
| "insert_nil_receiver (I_Into _) = ErrUnsupportedIntoType"
| "insert_nil_receiver _ = ErrNilPointer"

definition InsertDataset_call ::
  "'d env \<Rightarrow> 'd InsertDataset list \<Rightarrow> 'd SelectDataset list \<Rightarrow> nat \<Rightarrow> 'd insert_call
     \<Rightarrow> error + ('d InsertDataset list \<times> 'd SelectDataset list \<times> nat)" where
  "InsertDataset_call env hi hs p c =
     (if p < length hi then insert_step env hi hs p c else Inl (insert_nil_receiver c))"

subsection \<open>UpdateDataset\<close>

definition newUpdateDataset :: "'d env \<Rightarrow> string \<Rightarrow> nat option \<Rightarrow> 'd UpdateDataset" where
  "newUpdateDataset env d qf =
     \<lparr>dialect = GetDialect env d, clauses = NewUpdateClauses,
      isPrepared = preparedNoPreference, queryFactory = qf, err = None\<rparr>"

definition UpdateDataset_With :: "'d UpdateDataset \<Rightarrow> string \<Rightarrow> expression \<Rightarrow> 'd UpdateDataset" where
  "UpdateDataset_With ud name subquery =
     copy ud (UpdateClauses_CommonTablesAppend (clauses ud) (NewCommonTableExpression False name subquery))"

definition UpdateDataset_WithRecursive :: "'d UpdateDataset \<Rightarrow> string \<Rightarrow> expression \<Rightarrow> 'd UpdateDataset" where
  "UpdateDataset_WithRecursive ud name subquery =
     copy ud (UpdateClauses_CommonTablesAppend (clauses ud) (NewCommonTableExpression True name subquery))"

definition UpdateDataset_Table :: "'d UpdateDataset \<Rightarrow> arg \<Rightarrow> error + 'd UpdateDataset" where
  "UpdateDataset_Table ud table =
     (case table of
        ExprArg t \<Rightarrow> Inr (copy ud (UpdateClauses_SetTable (clauses ud) t))
      | StringArg t \<Rightarrow> Inr (copy ud (UpdateClauses_SetTable (clauses ud) (ParseIdentifier t)))
      | _ \<Rightarrow> Inl ErrUnsupportedUpdateTableType)"

definition Update :: "'d env \<Rightarrow> arg \<Rightarrow> error + 'd UpdateDataset" where
  "Update env table = UpdateDataset_Table (newUpdateDataset env ''default'' None) table"

definition UpdateDataset_Set :: "'d UpdateDataset \<Rightarrow> arg \<Rightarrow> 'd UpdateDataset" where
  "UpdateDataset_Set ud values = copy ud (UpdateClauses_SetSetValues (clauses ud) values)"

definition UpdateDataset_From :: "'d UpdateDataset \<Rightarrow> arg list \<Rightarrow> error + 'd UpdateDataset" where
  "UpdateDataset_From ud tables =
     (case NewColumnListExpression tables of
        Inl e \<Rightarrow> Inl e
      | Inr cl \<Rightarrow> Inr (copy ud (UpdateClauses_SetFrom (clauses ud) cl)))"

definition UpdateDataset_Where :: "'d UpdateDataset \<Rightarrow> expression list \<Rightarrow> 'd UpdateDataset" where
  "UpdateDataset_Where ud expressions = copy ud (UpdateClauses_WhereAppend (clauses ud) expressions)"

definition UpdateDataset_ClearWhere :: "'d UpdateDataset \<Rightarrow> 'd UpdateDataset" where
  "UpdateDataset_ClearWhere ud = copy ud (UpdateClauses_ClearWhere (clauses ud))"

definition UpdateDataset_Order :: "'d UpdateDataset \<Rightarrow> expression list \<Rightarrow> 'd UpdateDataset" where
  "UpdateDataset_Order ud order = copy ud (UpdateClauses_SetOrder (clauses ud) order)"

definition UpdateDataset_OrderAppend :: "'d UpdateDataset \<Rightarrow> expression list \<Rightarrow> 'd UpdateDataset" where
  "UpdateDataset_OrderAppend ud order = copy ud (UpdateClauses_OrderAppend (clauses ud) order)"

definition UpdateDataset_OrderPrepend :: "'d UpdateDataset \<Rightarrow> expression list \<Rightarrow> 'd UpdateDataset" where
  "UpdateDataset_OrderPrepend ud order = copy ud (UpdateClauses_OrderPrepend (clauses ud) order)"

definition UpdateDataset_ClearOrder :: "'d UpdateDataset \<Rightarrow> 'd UpdateDataset" where
  "UpdateDataset_ClearOrder ud = copy ud (UpdateClauses_ClearOrder (clauses ud))"

definition UpdateDataset_Limit :: "'d UpdateDataset \<Rightarrow> uint \<Rightarrow> 'd UpdateDataset" where
  "UpdateDataset_Limit ud limit =
     (if limit > 0 then copy ud (UpdateClauses_SetLimit (clauses ud) (UintArg limit))
      else copy ud (UpdateClauses_ClearLimit (clauses ud)))"

definition UpdateDataset_LimitAll :: "'d UpdateDataset \<Rightarrow> 'd UpdateDataset" where
  "UpdateDataset_LimitAll ud = copy ud (UpdateClauses_SetLimit (clauses ud) (ExprArg (L ''ALL'')))"

definition UpdateDataset_ClearLimit :: "'d UpdateDataset \<Rightarrow> 'd UpdateDataset" where
  "UpdateDataset_ClearLimit ud = copy ud (UpdateClauses_ClearLimit (clauses ud))"

definition UpdateDataset_Returning :: "'d UpdateDataset \<Rightarrow> arg list \<Rightarrow> error + 'd UpdateDataset" where
  "UpdateDataset_Returning ud returning =
     (case NewColumnListExpression returning of
        Inl e \<Rightarrow> Inl e
      | Inr cl \<Rightarrow> Inr (copy ud (UpdateClauses_SetReturning (clauses ud) cl)))"

definition UpdateDataset_GetAs :: "'d UpdateDataset \<Rightarrow> expression option" where
  "UpdateDataset_GetAs ud = None"

definition UpdateDataset_ReturnsColumns :: "'d UpdateDataset \<Rightarrow> bool" where
  "UpdateDataset_ReturnsColumns ud = UpdateClauses_HasReturning (clauses ud)"

definition updateSQLBuilder :: "'d env \<Rightarrow> 'd UpdateDataset \<Rightarrow> sql_builder" where
  "updateSQLBuilder env ud =
     (let buf = NewSQLBuilder (prepared_Bool (defaultPrepared env) (isPrepared ud))
      in case err ud of
           Some e \<Rightarrow> sb_SetError buf e
         | None \<Rightarrow> ToUpdateSQL env (dialect ud) buf (clauses ud))"

definition UpdateDataset_ToSQL :: "'d env \<Rightarrow> 'd UpdateDataset \<Rightarrow> string \<times> arg list \<times> error option" where
  "UpdateDataset_ToSQL env ud = sb_ToSQL (updateSQLBuilder env ud)"

definition UpdateDataset_MustToSQL :: "'d env \<Rightarrow> 'd UpdateDataset \<Rightarrow> error + (string \<times> arg list)" where
  "UpdateDataset_MustToSQL env ud =
     (case sb_ToSQL (updateSQLBuilder env ud) of
        (sql, params, Some e) \<Rightarrow> Inl e
      | (sql, params, None) \<Rightarrow> Inr (sql, params))"

definition UpdateDataset_AppendSQL :: "'d env \<Rightarrow> 'd UpdateDataset \<Rightarrow> sql_builder \<Rightarrow> sql_builder" where
  "UpdateDataset_AppendSQL env ud b =
     (case err ud of
        Some e \<Rightarrow> sb_SetError b e
      | None \<Rightarrow> ToUpdateSQL env (dialect ud) b (GetClauses ud))"

datatype 'd update_call =
    U_Prepared bool
  | U_WithDialect string
  | U_SetDialect 'd
  | U_With string expression
  | U_WithRecursive string expression
  | U_Table arg
  | U_Set arg
  | U_From "arg list"
  | U_Where "expression list"
  | U_ClearWhere
  | U_Order "expression list"
  | U_OrderAppend "expression list"
  | U_OrderPrepend "expression list"
  | U_ClearOrder
  | U_Limit uint
  | U_LimitAll
  | U_ClearLimit
  | U_Returning "arg list"
  | U_SetError "error option"

fun update_step ::
  "'d env \<Rightarrow> 'd UpdateDataset list \<Rightarrow> nat \<Rightarrow> 'd update_call \<Rightarrow> error + ('d UpdateDataset list \<times> nat)" where
  "update_step env h p (U_Prepared b) = Inr (new h (Prepared (h ! p) b))"
| "update_step env h p (U_WithDialect dl) = Inr (new h (WithDialect env (h ! p) dl))"
| "update_step env h p (U_SetDialect d) = Inr (new h (SetDialect (h ! p) d))"
| "update_step env h p (U_With name subquery) = Inr (new h (UpdateDataset_With (h ! p) name subquery))"
| "update_step env h p (U_WithRecursive name subquery) =
     Inr (new h (UpdateDataset_WithRecursive (h ! p) name subquery))"
| "update_step env h p (U_Table table) = new_result h (UpdateDataset_Table (h ! p) table)"
| "update_step env h p (U_Set values) = Inr (new h (UpdateDataset_Set (h ! p) values))"
| "update_step env h p (U_From tables) = new_result h (UpdateDataset_From (h ! p) tables)"
| "update_step env h p (U_Where expressions) = Inr (new h (UpdateDataset_Where (h ! p) expressions))"
| "update_step env h p U_ClearWhere = Inr (new h (UpdateDataset_ClearWhere (h ! p)))"
| "update_step env h p (U_Order order) = Inr (new h (UpdateDataset_Order (h ! p) order))"
| "update_step env h p (U_OrderAppend order) = Inr (new h (UpdateDataset_OrderAppend (h ! p) order))"
| "update_step env h p (U_OrderPrepend order) = Inr (new h (UpdateDataset_OrderPrepend (h ! p) order))"
| "update_step env h p U_ClearOrder = Inr (new h (UpdateDataset_ClearOrder (h ! p)))"
| "update_step env h p (U_Limit limit) = Inr (new h (UpdateDataset_Limit (h ! p) limit))"
| "update_step env h p U_LimitAll = Inr (new h (UpdateDataset_LimitAll (h ! p)))"
| "update_step env h p U_ClearLimit = Inr (new h (UpdateDataset_ClearLimit (h ! p)))"
| "update_step env h p (U_Returning returning) = new_result h (UpdateDataset_Returning (h ! p) returning)"
| "update_step env h p (U_SetError e) = Inr (SetError h p e)"

text \<open>
  On an invalid receiver, \<open>Table\<close> with a rejected argument panics with
  \<open>ErrUnsupportedUpdateTableType\<close>: its type switch runs before the receiver is read.
\<close>

fun update_nil_receiver :: "'d update_call \<Rightarrow> error" where
  "update_nil_receiver (U_Table (ExprArg t)) = ErrNilPointer"
| "update_nil_receiver (U_Table (StringArg t)) = ErrNilPointer"
| "update_nil_receiver (U_Table _) = ErrUnsupportedUpdateTableType"
| "update_nil_receiver _ = ErrNilPointer"

definition UpdateDataset_call ::
  "'d env \<Rightarrow> 'd UpdateDataset list \<Rightarrow> nat \<Rightarrow> 'd update_call \<Rightarrow> error + ('d UpdateDataset list \<times> nat)" where
  "UpdateDataset_call env h p c =
     (if p < length h then update_step env h p c else Inl (update_nil_receiver c))"

subsection \<open>DeleteDataset\<close>

definition newDeleteDataset :: "'d env \<Rightarrow> string \<Rightarrow> nat option \<Rightarrow> 'd DeleteDataset" where
  "newDeleteDataset env d qf =
     \<lparr>dialect = GetDialect env d, clauses = NewDeleteClauses,
      isPrepared = preparedNoPreference, queryFactory = qf, err = None\<rparr>"

definition DeleteDataset_With :: "'d DeleteDataset \<Rightarrow> string \<Rightarrow> expression \<Rightarrow> 'd DeleteDataset" where
  "DeleteDataset_With dd name subquery =
     copy dd (DeleteClauses_CommonTablesAppend (clauses dd) (NewCommonTableExpression False name subquery))"

definition DeleteDataset_WithRecursive :: "'d DeleteDataset \<Rightarrow> string \<Rightarrow> expression \<Rightarrow> 'd DeleteDataset" where
  "DeleteDataset_WithRecursive dd name subquery =
     copy dd (DeleteClauses_CommonTablesAppend (clauses dd) (NewCommonTableExpression True name subquery))"

definition DeleteDataset_From :: "'d DeleteDataset \<Rightarrow> arg \<Rightarrow> error + 'd DeleteDataset" where
  "DeleteDataset_From dd table =
     (case table of
        ExprArg (IdentifierExpression t) \<Rightarrow>
          Inr (copy dd (DeleteClauses_SetFrom (clauses dd) (IdentifierExpression t)))
      | StringArg t \<Rightarrow> Inr (copy dd (DeleteClauses_SetFrom (clauses dd) (ParseIdentifier t)))
      | _ \<Rightarrow> Inl ErrBadFromArgument)"

definition Delete :: "'d env \<Rightarrow> arg \<Rightarrow> error + 'd DeleteDataset" where
  "Delete env table = DeleteDataset_From (newDeleteDataset env ''default'' None) table"

definition DeleteDataset_Where :: "'d DeleteDataset \<Rightarrow> expression list \<Rightarrow> 'd DeleteDataset" where
  "DeleteDataset_Where dd expressions = copy dd (DeleteClauses_WhereAppend (clauses dd) expressions)"

definition DeleteDataset_ClearWhere :: "'d DeleteDataset \<Rightarrow> 'd DeleteDataset" where
  "DeleteDataset_ClearWhere dd = copy dd (DeleteClauses_ClearWhere (clauses dd))"

definition DeleteDataset_Order :: "'d DeleteDataset \<Rightarrow> expression list \<Rightarrow> 'd DeleteDataset" where
  "DeleteDataset_Order dd order = copy dd (DeleteClauses_SetOrder (clauses dd) order)"

definition DeleteDataset_OrderAppend :: "'d DeleteDataset \<Rightarrow> expression list \<Rightarrow> 'd DeleteDataset" where
  "DeleteDataset_OrderAppend dd order = copy dd (DeleteClauses_OrderAppend (clauses dd) order)"

definition DeleteDataset_OrderPrepend :: "'d DeleteDataset \<Rightarrow> expression list \<Rightarrow> 'd DeleteDataset" where
  "DeleteDataset_OrderPrepend dd order = copy dd (DeleteClauses_OrderPrepend (clauses dd) order)"

definition DeleteDataset_ClearOrder :: "'d DeleteDataset \<Rightarrow> 'd DeleteDataset" where
  "DeleteDataset_ClearOrder dd = copy dd (DeleteClauses_ClearOrder (clauses dd))"

definition DeleteDataset_Limit :: "'d DeleteDataset \<Rightarrow> uint \<Rightarrow> 'd DeleteDataset" where
  "DeleteDataset_Limit dd limit =
     (if limit > 0 then copy dd (DeleteClauses_SetLimit (clauses dd) (UintArg limit))
      else copy dd (DeleteClauses_ClearLimit (clauses dd)))"

definition DeleteDataset_LimitAll :: "'d DeleteDataset \<Rightarrow> 'd DeleteDataset" where
  "DeleteDataset_LimitAll dd = copy dd (DeleteClauses_SetLimit (clauses dd) (ExprArg (L ''ALL'')))"

definition DeleteDataset_ClearLimit :: "'d DeleteDataset \<Rightarrow> 'd DeleteDataset" where
  "DeleteDataset_ClearLimit dd = copy dd (DeleteClauses_ClearLimit (clauses dd))"

definition DeleteDataset_Returning :: "'d DeleteDataset \<Rightarrow> arg list \<Rightarrow> error + 'd DeleteDataset" where
  "DeleteDataset_Returning dd returning =
     (case NewColumnListExpression returning of
        Inl e \<Rightarrow> Inl e
      | Inr cl \<Rightarrow> Inr (copy dd (DeleteClauses_SetReturning (clauses dd) cl)))"

definition DeleteDataset_GetAs :: "'d DeleteDataset \<Rightarrow> expression option" where
  "DeleteDataset_GetAs dd = None"

definition DeleteDataset_ReturnsColumns :: "'d DeleteDataset \<Rightarrow> bool" where
  "DeleteDataset_ReturnsColumns dd = DeleteClauses_HasReturning (clauses dd)"

definition deleteSQLBuilder :: "'d env \<Rightarrow> 'd DeleteDataset \<Rightarrow> sql_builder" where
  "deleteSQLBuilder env dd =
     (let buf = NewSQLBuilder (prepared_Bool (defaultPrepared env) (isPrepared dd))
      in case err dd of
           Some e \<Rightarrow> sb_SetError buf e
         | None \<Rightarrow> ToDeleteSQL env (dialect dd) buf (clauses dd))"

definition DeleteDataset_ToSQL :: "'d env \<Rightarrow> 'd DeleteDataset \<Rightarrow> string \<times> arg list \<times> error option" where
  "DeleteDataset_ToSQL env dd = sb_ToSQL (deleteSQLBuilder env dd)"

definition DeleteDataset_MustToSQL :: "'d env \<Rightarrow> 'd DeleteDataset \<Rightarrow> error + (string \<times> arg list)" where
  "DeleteDataset_MustToSQL env dd =
     (case sb_ToSQL (deleteSQLBuilder env dd) of
        (sql, params, Some e) \<Rightarrow> Inl e
      | (sql, params, None) \<Rightarrow> Inr (sql, params))"

definition DeleteDataset_AppendSQL :: "'d env \<Rightarrow> 'd DeleteDataset \<Rightarrow> sql_builder \<Rightarrow> sql_builder" where
  "DeleteDataset_AppendSQL env dd b =
     (case err dd of
        Some e \<Rightarrow> sb_SetError b e
      | None \<Rightarrow> ToDeleteSQL env (dialect dd) b (GetClauses dd))"

datatype 'd delete_call =
    D_Prepared bool
  | D_WithDialect string
  | D_SetDialect 'd
  | D_With string expression
  | D_WithRecursive string expression
  | D_From arg
  | D_Where "expression list"
  | D_ClearWhere
  | D_Order "expression list"
  | D_OrderAppend "expression list"
  | D_OrderPrepend "expression list"
  | D_ClearOrder
  | D_Limit uint
  | D_LimitAll
  | D_ClearLimit
  | D_Returning "arg list"
  | D_SetError "error option"

fun delete_step ::
  "'d env \<Rightarrow> 'd DeleteDataset list \<Rightarrow> nat \<Rightarrow> 'd delete_call \<Rightarrow> error + ('d DeleteDataset list \<times> nat)" where
  "delete_step env h p (D_Prepared b) = Inr (new h (Prepared (h ! p) b))"
| "delete_step env h p (D_WithDialect dl) = Inr (new h (WithDialect env (h ! p) dl))"
| "delete_step env h p (D_SetDialect d) = Inr (new h (SetDialect (h ! p) d))"
| "delete_step env h p (D_With name subquery) = Inr (new h (DeleteDataset_With (h ! p) name subquery))"
| "delete_step env h p (D_WithRecursive name subquery) =
     Inr (new h (DeleteDataset_WithRecursive (h ! p) name subquery))"
| "delete_step env h p (D_From table) = new_result h (DeleteDataset_From (h ! p) table)"
| "delete_step env h p (D_Where expressions) = Inr (new h (DeleteDataset_Where (h ! p) expressions))"
| "delete_step env h p D_ClearWhere = Inr (new h (DeleteDataset_ClearWhere (h ! p)))"
| "delete_step env h p (D_Order order) = Inr (new h (DeleteDataset_Order (h ! p) order))"
| "delete_step env h p (D_OrderAppend order) = Inr (new h (DeleteDataset_OrderAppend (h ! p) order))"
| "delete_step env h p (D_OrderPrepend order) = Inr (new h (DeleteDataset_OrderPrepend (h ! p) order))"
| "delete_step env h p D_ClearOrder = Inr (new h (DeleteDataset_ClearOrder (h ! p)))"
| "delete_step env h p (D_Limit limit) = Inr (new h (DeleteDataset_Limit (h ! p) limit))"
| "delete_step env h p D_LimitAll = Inr (new h (DeleteDataset_LimitAll (h ! p)))"
| "delete_step env h p D_ClearLimit = Inr (new h (DeleteDataset_ClearLimit (h ! p)))"
| "delete_step env h p (D_Returning returning) = new_result h (DeleteDataset_Returning (h ! p) returning)"
| "delete_step env h p (D_SetError e) = Inr (SetError h p e)"

text \<open>
  On an invalid receiver, \<open>From\<close> with a rejected argument panics with
  \<open>ErrBadFromArgument\<close>: its type switch runs before the receiver is read.
\<close>

fun delete_nil_receiver :: "'d delete_call \<Rightarrow> error" where
  "delete_nil_receiver (D_From (ExprArg (IdentifierExpression t))) = ErrNilPointer"
| "delete_nil_receiver (D_From (StringArg t)) = ErrNilPointer"
| "delete_nil_receiver (D_From _) = ErrBadFromArgument"
| "delete_nil_receiver _ = ErrNilPointer"

definition DeleteDataset_call ::
  "'d env \<Rightarrow> 'd DeleteDataset list \<Rightarrow> nat \<Rightarrow> 'd delete_call \<Rightarrow> error + ('d DeleteDataset list \<times> nat)" where
  "DeleteDataset_call env h p c =
     (if p < length h then delete_step env h p c else Inl (delete_nil_receiver c))"

subsection \<open>Clone through a pointer\<close>

text \<open>\<open>Clone\<close> called on the dataset at pointer \<open>p\<close>: the copy goes into a fresh cell.\<close>

definition Clone_call :: "('d, 'c) dataset list \<Rightarrow> nat \<Rightarrow> error + (('d, 'c) dataset list \<times> nat)" where
  "Clone_call h p = (if p < length h then Inr (new h (Clone (h ! p))) else Inl ErrNilPointer)"

section \<open>A TRUNCATE renderer and a concrete environment\<close>

text \<open>
  Modelled from the spec: the text a dialect writes for a TRUNCATE statement; the dialect's
  renderer is not among the source files. The spec fixes the order of the pieces: the table
  names, then the CASCADE fragment, then the configured identity fragment; a cleared clause
  leaves no fragment at all. The spec does not place the RESTRICT fragment; it is written
  after the CASCADE fragment here. The fragments themselves and the quoting of a name are the
  dialect's, taken as parameters.
\<close>

record truncate_fragments =
  TruncateClause :: string
  CascadeFragment :: string
  RestrictFragment :: string
  IdentityFragment :: "string \<Rightarrow> string"
  QuoteIdentifier :: "string \<Rightarrow> string"

fun source_sql :: "truncate_fragments \<Rightarrow> expression \<Rightarrow> string" where
  "source_sql fr (IdentifierExpression s) = QuoteIdentifier fr s"
| "source_sql fr (LiteralExpression s) = s"
| "source_sql fr _ = []"

fun sources_sql :: "truncate_fragments \<Rightarrow> expression list \<Rightarrow> string" where
  "sources_sql fr [] = []"
| "sources_sql fr [x] = source_sql fr x"
| "sources_sql fr (x # xs) = source_sql fr x @ '', '' @ sources_sql fr xs"

definition SpecTruncateSQL :: "truncate_fragments \<Rightarrow> sql_builder \<Rightarrow> TruncateClauses \<Rightarrow> sql_builder" where
  "SpecTruncateSQL fr b c =
     (let opts = tc_options c;
          b1 = sb_Write b (TruncateClause fr);
          b2 = sb_Write b1 (sources_sql fr (case tc_tables c of None \<Rightarrow> [] | Some cl \<Rightarrow> Columns cl));
          b3 = (if Cascade opts then sb_Write b2 (CascadeFragment fr) else b2);
          b4 = (if Restrict opts then sb_Write b3 (RestrictFragment fr) else b3)
      in if Identity opts \<noteq> [] then sb_Write b4 (IdentityFragment fr (Identity opts)) else b4)"

text \<open>
  A concrete environment on which the model is evaluated: two registered dialects, \<open>0\<close> the
  reserved default and \<open>1\<close> named postgres; every renderer writes the name of the dialect it
  belongs to, so that the text shows which dialect produced each part.
\<close>

definition sample_fragments :: truncate_fragments where
  "sample_fragments =
     \<lparr>TruncateClause = ''TRUNCATE '', CascadeFragment = '' CASCADE'',
      RestrictFragment = '' RESTRICT'', IdentityFragment = (\<lambda>s. '' '' @ s @ '' IDENTITY''),
      QuoteIdentifier = (\<lambda>s. [CHR 0x22] @ s @ [CHR 0x22])\<rparr>"

definition sample_name :: "nat \<Rightarrow> string" where
  "sample_name d = (if d = 1 then ''postgres'' else ''default'')"

definition sample_env :: "nat env" where
  "sample_env =
     \<lparr>GetDialect = (\<lambda>n. if n = ''postgres'' then 1 else 0),
      DialectName = sample_name,
      defaultPrepared = False,
      ToTruncateSQL = (\<lambda>d. SpecTruncateSQL sample_fragments),
      ToInsertSQL = (\<lambda>d src b c. src (sb_Write b (''INSERT['' @ sample_name d @ ''] ''))),
      ToUpdateSQL = (\<lambda>d b c. sb_Write b (''UPDATE['' @ sample_name d @ '']'')),
      ToDeleteSQL = (\<lambda>d b c. sb_Write b (''DELETE['' @ sample_name d @ '']'')),
      ToSelectSQL = (\<lambda>d b c. sb_Write b (''SELECT['' @ sample_name d @ '']'')),
      AppendOther = (\<lambda>x b. sb_Write b ''(...)'')\<rparr>"

text \<open>Datasets of the four kinds as the package-level constructors build them, and a SELECT.\<close>

definition users_truncate :: "nat TruncateDataset" where
  "users_truncate =
     \<lparr>dialect = 0,
      clauses = \<lparr>tc_tables = Some (ColumnListExpression [IdentifierExpression ''users'']),
                 tc_options = \<lparr>Cascade = False, Restrict = False, Identity = []\<rparr>\<rparr>,
      isPrepared = preparedNoPreference, queryFactory = None, err = None\<rparr>"

definition users_insert :: "nat InsertDataset" where
  "users_insert =
     \<lparr>dialect = 0, clauses = NewInsertClauses\<lparr>ic_into := Some (IdentifierExpression ''users'')\<rparr>,
      isPrepared = preparedNoPreference, queryFactory = None, err = None\<rparr>"

definition users_update :: "nat UpdateDataset" where
  "users_update =
     \<lparr>dialect = 0, clauses = NewUpdateClauses\<lparr>uc_table := Some (IdentifierExpression ''users'')\<rparr>,
      isPrepared = preparedNoPreference, queryFactory = None, err = None\<rparr>"

definition users_delete :: "nat DeleteDataset" where
  "users_delete =
     \<lparr>dialect = 0, clauses = NewDeleteClauses\<lparr>dc_from := Some (IdentifierExpression ''users'')\<rparr>,
      isPrepared = preparedNoPreference, queryFactory = None, err = None\<rparr>"

definition other_select :: "nat SelectDataset" where
  "other_select =
     \<lparr>dialect = 0,
      clauses = \<lparr>sc_select = [], sc_from = Some (IdentifierExpression ''other''), sc_where = None\<rparr>,
      isPrepared = preparedNoPreference, queryFactory = None, err = None\<rparr>"

section \<open>Vocabulary of the properties\<close>

text \<open>The calls that are \<open>SetError\<close>.\<close>

fun is_T_SetError :: "'d truncate_call \<Rightarrow> bool" where
  "is_T_SetError (T_SetError e) = True"
| "is_T_SetError _ = False"

fun is_I_SetError :: "'d insert_call \<Rightarrow> bool" where
  "is_I_SetError (I_SetError e) = True"
| "is_I_SetError _ = False"

fun is_U_SetError :: "'d update_call \<Rightarrow> bool" where
  "is_U_SetError (U_SetError e) = True"
| "is_U_SetError _ = False"

fun is_D_SetError :: "'d delete_call \<Rightarrow> bool" where
  "is_D_SetError (D_SetError e) = True"
| "is_D_SetError _ = False"

text \<open>
  The store of select datasets after a call on the insert builder \<open>b\<close>: \<open>FromQuery\<close> on a
  pointer to a \<open>SelectDataset\<close> assigns that dataset's field \<open>dialect\<close>; no other call writes
  to the store.
\<close>

fun adopted :: "'d InsertDataset \<Rightarrow> 'd SelectDataset list \<Rightarrow> 'd insert_call \<Rightarrow> 'd SelectDataset list" where
  "adopted b hs (I_FromQuery (SelectDatasetPtr q)) = hs[q := (hs ! q)\<lparr>dialect := dialect b\<rparr>]"
| "adopted b hs _ = hs"

text \<open>
  The one kind of call after which the receiver \<open>b\<close> may render differently: \<open>FromQuery\<close>
  on the \<open>SelectDataset\<close> that is already the row source of \<open>b\<close>, when that dataset's
  dialect is not the dialect of \<open>b\<close> and neither of the two carries a sticky error.
\<close>

fun rerenders_row_source :: "'d InsertDataset \<Rightarrow> 'd SelectDataset list \<Rightarrow> 'd insert_call \<Rightarrow> bool" where
  "rerenders_row_source b hs (I_FromQuery (SelectDatasetPtr q)) =
     (ic_from (clauses b) = Some (SelectDatasetPtr q) \<and> dialect (hs ! q) \<noteq> dialect b
      \<and> err b = None \<and> err (hs ! q) = None)"
| "rerenders_row_source b hs _ = False"

text \<open>
  The spec's words for a table or target argument: a plain name or an already-built
  expression; for \<open>DeleteDataset.From\<close>, a name or an identifier only. \<open>target_of\<close> is the
  expression that an accepted argument stands for.
\<close>

fun name_or_expression :: "arg \<Rightarrow> bool" where
  "name_or_expression (StringArg s) = True"
| "name_or_expression (ExprArg x) = True"
| "name_or_expression _ = False"

fun name_or_identifier :: "arg \<Rightarrow> bool" where
  "name_or_identifier (StringArg s) = True"
| "name_or_identifier (ExprArg (IdentifierExpression s)) = True"
| "name_or_identifier _ = False"

fun target_of :: "arg \<Rightarrow> expression" where
  "target_of (StringArg s) = ParseIdentifier s"
| "target_of (ExprArg x) = x"
| "target_of _ = LiteralExpression []"

text \<open>
  Two environments agree on a dialect when they give it the same INSERT and SELECT renderers
  and have the same prepared default: they may differ in every other dialect's renderers.
\<close>

definition agree_on :: "'d \<Rightarrow> 'd env \<Rightarrow> 'd env \<Rightarrow> bool" where
  "agree_on P env env' =
     (ToInsertSQL env' P = ToInsertSQL env P \<and> ToSelectSQL env' P = ToSelectSQL env P
      \<and> defaultPrepared env' = defaultPrepared env)"

lemmas dataset_defs =
  copy_def GetClauses_def Prepared_def WithDialect_def SetDialect_def Clone_def Error_def
  Dialect_def IsPrepared_def

lemmas truncate_defs =
  TruncateDataset_Table_def TruncateDataset_Cascade_def TruncateDataset_NoCascade_def
  TruncateDataset_Restrict_def TruncateDataset_NoRestrict_def TruncateDataset_Identity_def
  TruncateClauses_SetTable_def TruncateClauses_Options_def TruncateClauses_SetOptions_def

lemmas insert_defs =
  InsertDataset_With_def InsertDataset_WithRecursive_def InsertDataset_Into_def
  InsertDataset_Cols_def InsertDataset_ClearCols_def InsertDataset_ColsAppend_def
  InsertDataset_FromQuery_def InsertDataset_Vals_def InsertDataset_ClearVals_def
  InsertDataset_Rows_def InsertDataset_ClearRows_def InsertDataset_Returning_def
  InsertDataset_OnConflict_def InsertDataset_ClearOnConflict_def InsertDataset_As_def

lemmas update_defs =
  UpdateDataset_With_def UpdateDataset_WithRecursive_def UpdateDataset_Table_def
  UpdateDataset_Set_def UpdateDataset_From_def UpdateDataset_Where_def
  UpdateDataset_ClearWhere_def UpdateDataset_Order_def UpdateDataset_OrderAppend_def
  UpdateDataset_OrderPrepend_def UpdateDataset_ClearOrder_def UpdateDataset_Limit_def
  UpdateDataset_LimitAll_def UpdateDataset_ClearLimit_def UpdateDataset_Returning_def

lemmas delete_defs =
  DeleteDataset_With_def DeleteDataset_WithRecursive_def DeleteDataset_From_def
  DeleteDataset_Where_def DeleteDataset_ClearWhere_def DeleteDataset_Order_def
  DeleteDataset_OrderAppend_def DeleteDataset_OrderPrepend_def DeleteDataset_ClearOrder_def
  DeleteDataset_Limit_def DeleteDataset_LimitAll_def DeleteDataset_ClearLimit_def
  DeleteDataset_Returning_def

lemmas builder_defs =
  NewSQLBuilder_def sb_SetError_def sb_Write_def sb_ToSQL_def

lemmas sample_defs =
  sample_env_def sample_name_def sample_fragments_def SpecTruncateSQL_def
  users_truncate_def users_insert_def users_update_def users_delete_def other_select_def
  NewInsertClauses_def NewUpdateClauses_def NewDeleteClauses_def NewTruncateClauses_def

section \<open>Basic facts\<close>

subsection \<open>Copies\<close>

lemma copy_err [simp]: "err (copy ds c) = err ds"
  and copy_dialect [simp]: "dialect (copy ds c) = dialect ds"
  and copy_clauses [simp]: "clauses (copy ds c) = c"
  and copy_isPrepared [simp]: "isPrepared (copy ds c) = isPrepared ds"
  and copy_queryFactory [simp]: "queryFactory (copy ds c) = queryFactory ds"
  by (simp_all add: copy_def)

lemma copy_same [simp]: "copy ds (clauses ds) = ds"
  by (simp add: copy_def)

lemma Clone_same: "Clone ds = ds"
  by (simp add: Clone_def)

lemma NewColumnList_copy_err:
  "(case NewColumnListExpression xs of Inl e \<Rightarrow> Inl e | Inr cl \<Rightarrow> Inr (copy ds (f cl))) = Inr v
   \<Longrightarrow> err v = err ds"
  by (auto split: sum.splits)

lemma TruncateDataset_Table_err: "TruncateDataset_Table td xs = Inr v \<Longrightarrow> err v = err td"
  unfolding TruncateDataset_Table_def by (rule NewColumnList_copy_err)

lemma InsertDataset_Into_err: "InsertDataset_Into b a = Inr v \<Longrightarrow> err v = err b"
  by (cases a) (auto simp: InsertDataset_Into_def)

lemma InsertDataset_Cols_err: "InsertDataset_Cols b xs = Inr v \<Longrightarrow> err v = err b"
  unfolding InsertDataset_Cols_def by (rule NewColumnList_copy_err)

lemma InsertDataset_ColsAppend_err: "InsertDataset_ColsAppend b xs = Inr v \<Longrightarrow> err v = err b"
  unfolding InsertDataset_ColsAppend_def by (rule NewColumnList_copy_err)

lemma InsertDataset_Returning_err: "InsertDataset_Returning b xs = Inr v \<Longrightarrow> err v = err b"
  unfolding InsertDataset_Returning_def by (rule NewColumnList_copy_err)


lemma InsertDataset_FromQuery_result:
  assumes "InsertDataset_FromQuery env hs b frm = Inr (hs', v)"
  shows "err v = err b \<and> hs' = adopted b hs (I_FromQuery frm)"
proof (cases frm)
  case (SelectDatasetPtr q)
  with assms show ?thesis
    by (auto simp: InsertDataset_FromQuery_def Let_def split: if_splits)
next
  case (OtherAppendable x)
  with assms show ?thesis by (auto simp: InsertDataset_FromQuery_def)
qed

lemma UpdateDataset_Table_err: "UpdateDataset_Table b a = Inr v \<Longrightarrow> err v = err b"
  by (cases a) (auto simp: UpdateDataset_Table_def)

lemma UpdateDataset_From_err: "UpdateDataset_From b xs = Inr v \<Longrightarrow> err v = err b"
  unfolding UpdateDataset_From_def by (rule NewColumnList_copy_err)

lemma UpdateDataset_Returning_err: "UpdateDataset_Returning b xs = Inr v \<Longrightarrow> err v = err b"
  unfolding UpdateDataset_Returning_def by (rule NewColumnList_copy_err)

lemma DeleteDataset_From_cases:
  "DeleteDataset_From dd a =
     (if name_or_identifier a then Inr (copy dd (DeleteClauses_SetFrom (clauses dd) (target_of a)))
      else Inl ErrBadFromArgument)"
proof (cases a)
  case (ExprArg x)
  then show ?thesis by (cases x) (simp_all add: DeleteDataset_From_def)
qed (simp_all add: DeleteDataset_From_def)

lemma DeleteDataset_From_err: "DeleteDataset_From b a = Inr v \<Longrightarrow> err v = err b"
  by (auto simp: DeleteDataset_From_cases split: if_splits)

lemma DeleteDataset_Returning_err: "DeleteDataset_Returning b xs = Inr v \<Longrightarrow> err v = err b"
  unfolding DeleteDataset_Returning_def by (rule NewColumnList_copy_err)

subsection \<open>Calls through a pointer\<close>

lemma new_result_Inr: "new_result h r = Inr (h', p') \<Longrightarrow> \<exists>v. r = Inr v \<and> h' = h @ [v] \<and> p' = length h"
  by (auto simp: new_result_def new_def split: sum.splits)

lemma new_insert_Inr:
  "new_insert hi hs r = Inr (hi', hs', p') \<Longrightarrow> \<exists>v. r = Inr v \<and> hi' = hi @ [v] \<and> hs' = hs \<and> p' = length hi"
  by (auto simp: new_insert_def new_def split: sum.splits)

lemmas simple_copies =
  Prepared_def WithDialect_def SetDialect_def
  TruncateDataset_Cascade_def TruncateDataset_NoCascade_def TruncateDataset_Restrict_def
  TruncateDataset_NoRestrict_def TruncateDataset_Identity_def
  InsertDataset_With_def InsertDataset_WithRecursive_def InsertDataset_ClearCols_def
  InsertDataset_Vals_def InsertDataset_ClearVals_def InsertDataset_Rows_def
  InsertDataset_ClearRows_def InsertDataset_OnConflict_def InsertDataset_ClearOnConflict_def
  InsertDataset_As_def
  UpdateDataset_With_def UpdateDataset_WithRecursive_def UpdateDataset_Set_def
  UpdateDataset_Where_def UpdateDataset_ClearWhere_def UpdateDataset_Order_def
  UpdateDataset_OrderAppend_def UpdateDataset_OrderPrepend_def UpdateDataset_ClearOrder_def
  UpdateDataset_Limit_def UpdateDataset_LimitAll_def UpdateDataset_ClearLimit_def
  DeleteDataset_With_def DeleteDataset_WithRecursive_def DeleteDataset_Where_def
  DeleteDataset_ClearWhere_def DeleteDataset_Order_def DeleteDataset_OrderAppend_def
  DeleteDataset_OrderPrepend_def DeleteDataset_ClearOrder_def DeleteDataset_Limit_def
  DeleteDataset_LimitAll_def DeleteDataset_ClearLimit_def


lemma truncate_call_fresh:
  assumes "TruncateDataset_call env h p c = Inr (h', p')" and "\<not> is_T_SetError c"
  shows "p < length h \<and> p' = length h \<and> (\<exists>v. h' = h @ [v] \<and> err v = err (h ! p))"
proof -
  from assms(1) have p: "p < length h" and s: "truncate_step env h p c = Inr (h', p')"
    by (auto simp: TruncateDataset_call_def split: if_splits)
  from s assms(2) have "p' = length h \<and> (\<exists>v. h' = h @ [v] \<and> err v = err (h ! p))"
    by (cases c)
       (auto simp: new_def simple_copies Let_def dest!: new_result_Inr dest: TruncateDataset_Table_err)
  with p show ?thesis by simp
qed

lemma insert_call_fresh:
  assumes "InsertDataset_call env hi hs p c = Inr (hi', hs', p')" and "\<not> is_I_SetError c"
  shows "p < length hi \<and> p' = length hi \<and> (\<exists>v. hi' = hi @ [v] \<and> err v = err (hi ! p))
         \<and> hs' = adopted (hi ! p) hs c"
proof -
  from assms(1) have p: "p < length hi" and s: "insert_step env hi hs p c = Inr (hi', hs', p')"
    by (auto simp: InsertDataset_call_def split: if_splits)
  from s assms(2) have "p' = length hi \<and> (\<exists>v. hi' = hi @ [v] \<and> err v = err (hi ! p))
         \<and> hs' = adopted (hi ! p) hs c"
  proof (cases c)
    case (I_FromQuery frm)
    with s obtain hs1 v where
      fq: "InsertDataset_FromQuery env hs (hi ! p) frm = Inr (hs1, v)"
      and n: "new_insert hi hs1 (Inr v) = Inr (hi', hs', p')"
      by (auto split: sum.splits)
    from n have "hi' = hi @ [v]" "hs' = hs1" "p' = length hi"
      by (auto dest: new_insert_Inr)
    with InsertDataset_FromQuery_result [OF fq] I_FromQuery show ?thesis by simp
  qed (auto simp: simple_copies dest!: new_insert_Inr
         dest: InsertDataset_Into_err InsertDataset_Cols_err InsertDataset_ColsAppend_err
               InsertDataset_Returning_err)
  with p show ?thesis by simp
qed

lemma update_call_fresh:
  assumes "UpdateDataset_call env h p c = Inr (h', p')" and "\<not> is_U_SetError c"
  shows "p < length h \<and> p' = length h \<and> (\<exists>v. h' = h @ [v] \<and> err v = err (h ! p))"
proof -
  from assms(1) have p: "p < length h" and s: "update_step env h p c = Inr (h', p')"
    by (auto simp: UpdateDataset_call_def split: if_splits)
  from s assms(2) have "p' = length h \<and> (\<exists>v. h' = h @ [v] \<and> err v = err (h ! p))"
    by (cases c)
       (auto simp: new_def simple_copies dest!: new_result_Inr
             dest: UpdateDataset_Table_err UpdateDataset_From_err UpdateDataset_Returning_err)
  with p show ?thesis by simp
qed

lemma delete_call_fresh:
  assumes "DeleteDataset_call env h p c = Inr (h', p')" and "\<not> is_D_SetError c"
  shows "p < length h \<and> p' = length h \<and> (\<exists>v. h' = h @ [v] \<and> err v = err (h ! p))"
proof -
  from assms(1) have p: "p < length h" and s: "delete_step env h p c = Inr (h', p')"
    by (auto simp: DeleteDataset_call_def split: if_splits)
  from s assms(2) have "p' = length h \<and> (\<exists>v. h' = h @ [v] \<and> err v = err (h ! p))"
    by (cases c)
       (auto simp: new_def simple_copies dest!: new_result_Inr
             dest: DeleteDataset_From_err DeleteDataset_Returning_err)
  with p show ?thesis by simp
qed





lemma FromQuery_call_select:
  assumes "pn < length hi" and "q < length hs"
  shows "InsertDataset_call env hi hs pn (I_FromQuery (SelectDatasetPtr q)) =
     (if dialect (hs ! q) \<noteq> GetDialect env ''default'' \<and> dialect (hi ! pn) \<noteq> dialect (hs ! q)
      then Inl (ErrIncompatibleDialects (DialectName env (dialect (hi ! pn)))
                  (DialectName env (dialect (hs ! q))))
      else Inr (hi @ [copy (hi ! pn) (InsertClauses_SetFrom (clauses (hi ! pn)) (SelectDatasetPtr q))],
                hs[q := (hs ! q)\<lparr>dialect := dialect (hi ! pn)\<rparr>], length hi))"
  using assms
  by (simp add: InsertDataset_call_def InsertDataset_FromQuery_def Let_def Dialect_def
      new_insert_def new_def)


lemma Clone_call_Inr:
  "Clone_call h p = Inr (h', p') \<Longrightarrow> p < length h \<and> p' = length h \<and> h' = h @ [h ! p]"
  by (auto simp: Clone_call_def new_def Clone_same split: if_splits)

lemma InsertDataset_Into_cases:
  "InsertDataset_Into b a =
     (if name_or_expression a then Inr (copy b (InsertClauses_SetInto (clauses b) (target_of a)))
      else Inl ErrUnsupportedIntoType)"
  by (cases a) (simp_all add: InsertDataset_Into_def)

lemma UpdateDataset_Table_cases:
  "UpdateDataset_Table b a =
     (if name_or_expression a then Inr (copy b (UpdateClauses_SetTable (clauses b) (target_of a)))
      else Inl ErrUnsupportedUpdateTableType)"
  by (cases a) (simp_all add: UpdateDataset_Table_def)

subsection \<open>Rendering\<close>

lemma sb_ToSQL_cases:
  "(case sb_ToSQL b of (sql, params, Some e) \<Rightarrow> Inl e | (sql, params, None) \<Rightarrow> Inr (sql, params))
   = (case snd (snd (sb_ToSQL b)) of Some e \<Rightarrow> Inl e | None \<Rightarrow> Inr (fst (sb_ToSQL b), fst (snd (sb_ToSQL b))))"
  by (simp split: prod.splits option.splits)

lemma sb_ToSQL_SetError_new: "sb_ToSQL (sb_SetError (NewSQLBuilder p) e) = ([], [], Some e)"
  by (simp add: builder_defs)

lemma ToSQL_sticky:
  "err td = Some e \<Longrightarrow> truncateSQLBuilder env td = sb_SetError (NewSQLBuilder (IsPrepared env td)) e"
  "err b = Some e \<Longrightarrow> insertSQLBuilder env hs b = sb_SetError (NewSQLBuilder (IsPrepared env b)) e"
  "err ud = Some e \<Longrightarrow> updateSQLBuilder env ud = sb_SetError (NewSQLBuilder (IsPrepared env ud)) e"
  "err dd = Some e \<Longrightarrow> deleteSQLBuilder env dd = sb_SetError (NewSQLBuilder (IsPrepared env dd)) e"
  by (simp_all add: truncateSQLBuilder_def insertSQLBuilder_def updateSQLBuilder_def
      deleteSQLBuilder_def IsPrepared_def)

lemma ToSQL_agree:
  assumes "agree_on P env env'" and "dialect b = P"
    and "ic_from (clauses b) = Some (SelectDatasetPtr q)" and "dialect (hs ! q) = P"
  shows "InsertDataset_ToSQL env' hs b = InsertDataset_ToSQL env hs b"
proof -
  from assms have r: "row_source_AppendSQL env' hs (Some (SelectDatasetPtr q))
      = row_source_AppendSQL env hs (Some (SelectDatasetPtr q))"
    by (auto simp: agree_on_def row_source_AppendSQL_def SelectDataset_AppendSQL_def fun_eq_iff
        split: option.splits)
  from assms have "dialect_ToInsertSQL env' hs (dialect b) buf (clauses b)
      = dialect_ToInsertSQL env hs (dialect b) buf (clauses b)" for buf
    by (simp add: dialect_ToInsertSQL_def r agree_on_def)
  with assms(1) show ?thesis
    by (simp add: InsertDataset_ToSQL_def insertSQLBuilder_def agree_on_def Let_def
        split: option.splits)
qed




lemma truncate_call_sticky:
  assumes "TruncateDataset_call env h p c = Inr (h', p')" and "err (h ! p) = Some e"
  shows "err (h' ! p') = Some e"
proof (cases "is_T_SetError c")
  case True
  then obtain x where "c = T_SetError x" by (cases c) auto
  with assms show ?thesis
    by (auto simp: TruncateDataset_call_def SetError_def split: if_splits)
next
  case False
  from truncate_call_fresh [OF assms(1) False] assms(2) show ?thesis by auto
qed

lemma insert_call_sticky:
  assumes "InsertDataset_call env hi hs p c = Inr (hi', hs', p')" and "err (hi ! p) = Some e"
  shows "err (hi' ! p') = Some e"
proof (cases "is_I_SetError c")
  case True
  then obtain x where "c = I_SetError x" by (cases c) auto
  with assms show ?thesis
    by (auto simp: InsertDataset_call_def SetError_def split: if_splits)
next
  case False
  from insert_call_fresh [OF assms(1) False] assms(2) show ?thesis by auto
qed

lemma update_call_sticky:
  assumes "UpdateDataset_call env h p c = Inr (h', p')" and "err (h ! p) = Some e"
  shows "err (h' ! p') = Some e"
proof (cases "is_U_SetError c")
  case True
  then obtain x where "c = U_SetError x" by (cases c) auto
  with assms show ?thesis
    by (auto simp: UpdateDataset_call_def SetError_def split: if_splits)
next
  case False
  from update_call_fresh [OF assms(1) False] assms(2) show ?thesis by auto
qed

lemma delete_call_sticky:
  assumes "DeleteDataset_call env h p c = Inr (h', p')" and "err (h ! p) = Some e"
  shows "err (h' ! p') = Some e"
proof (cases "is_D_SetError c")
  case True
  then obtain x where "c = D_SetError x" by (cases c) auto
  with assms show ?thesis
    by (auto simp: DeleteDataset_call_def SetError_def split: if_splits)
next
  case False
  from delete_call_fresh [OF assms(1) False] assms(2) show ?thesis by auto
qed

lemma Cascade_Identity_commute:
  "TruncateDataset_Identity (TruncateDataset_Cascade td) s
     = TruncateDataset_Cascade (TruncateDataset_Identity td s)"
  by (simp add: TruncateDataset_Identity_def TruncateDataset_Cascade_def copy_def Let_def
      TruncateClauses_Options_def TruncateClauses_SetOptions_def)

lemma Cascade_Identity_clauses:
  "clauses (TruncateDataset_Identity (TruncateDataset_Cascade td) s)
     = (clauses td)\<lparr>tc_options := (tc_options (clauses td))\<lparr>Cascade := True, Identity := s\<rparr>\<rparr>"
  by (simp add: TruncateDataset_Identity_def TruncateDataset_Cascade_def Let_def
      TruncateClauses_Options_def TruncateClauses_SetOptions_def)

lemma Truncate_users:
  "Truncate env [StringArg ''users''] = Inr b \<Longrightarrow>
     b = \<lparr>dialect = GetDialect env ''default'',
          clauses = \<lparr>tc_tables = Some (ColumnListExpression [IdentifierExpression ''users'']),
                     tc_options = \<lparr>Cascade = False, Restrict = False, Identity = []\<rparr>\<rparr>,
          isPrepared = preparedNoPreference, queryFactory = None, err = None\<rparr>"
  by (auto simp: Truncate_def TruncateDataset_Table_def newTruncateDataset_def
      NewColumnListExpression_def ParseIdentifier_def copy_def TruncateClauses_SetTable_def
      NewTruncateClauses_def)

lemma SpecTruncateSQL_users:
  assumes "Truncate env [StringArg ''users''] = Inr b"
    and "ToTruncateSQL env (Dialect b) = SpecTruncateSQL fr"
  shows "TruncateDataset_ToSQL env (TruncateDataset_Identity (TruncateDataset_Cascade b) ''restart'')
     = (TruncateClause fr @ QuoteIdentifier fr ''users'' @ CascadeFragment fr
          @ IdentityFragment fr ''restart'', [], None)"
proof -
  note b = Truncate_users [OF assms(1)]
  have c: "clauses (TruncateDataset_Identity (TruncateDataset_Cascade b) ''restart'')
      = \<lparr>tc_tables = Some (ColumnListExpression [IdentifierExpression ''users'']),
         tc_options = \<lparr>Cascade = True, Restrict = False, Identity = ''restart''\<rparr>\<rparr>"
    by (subst Cascade_Identity_clauses) (simp add: b)
  have d: "dialect (TruncateDataset_Identity (TruncateDataset_Cascade b) ''restart'') = dialect b"
    "err (TruncateDataset_Identity (TruncateDataset_Cascade b) ''restart'') = None"
    by (simp_all add: TruncateDataset_Identity_def TruncateDataset_Cascade_def Let_def b)
  from assms(2) have r: "ToTruncateSQL env (dialect b) = SpecTruncateSQL fr"
    by (simp add: Dialect_def)
  show ?thesis
    by (simp add: TruncateDataset_ToSQL_def truncateSQLBuilder_def c d r SpecTruncateSQL_def
        builder_defs)
qed

subsection \<open>The concrete environment evaluated\<close>

lemma users_truncate_built: "Truncate sample_env [StringArg ''users''] = Inr users_truncate"
  by (simp add: Truncate_def TruncateDataset_Table_def newTruncateDataset_def
      NewColumnListExpression_def ParseIdentifier_def copy_def TruncateClauses_SetTable_def
      NewTruncateClauses_def users_truncate_def sample_env_def)

lemma sample_truncate_sql:
  "TruncateDataset_ToSQL sample_env users_truncate
     = (''TRUNCATE '' @ [CHR 0x22] @ ''users'' @ [CHR 0x22], [], None)"
  by (simp add: TruncateDataset_ToSQL_def truncateSQLBuilder_def prepared_Bool_def
      builder_defs sample_defs)

lemma sample_insert_sql:
  "InsertDataset_ToSQL sample_env [] users_insert = (''INSERT[default] '', [], None)"
  by (simp add: InsertDataset_ToSQL_def insertSQLBuilder_def dialect_ToInsertSQL_def
      row_source_AppendSQL_def prepared_Bool_def builder_defs sample_defs)

lemma sample_update_sql:
  "UpdateDataset_ToSQL sample_env users_update = (''UPDATE[default]'', [], None)"
  by (simp add: UpdateDataset_ToSQL_def updateSQLBuilder_def prepared_Bool_def
      builder_defs sample_defs)

lemma sample_delete_sql:
  "DeleteDataset_ToSQL sample_env users_delete = (''DELETE[default]'', [], None)"
  by (simp add: DeleteDataset_ToSQL_def deleteSQLBuilder_def prepared_Bool_def
      builder_defs sample_defs)

lemma sample_error_sql:
  "TruncateDataset_ToSQL sample_env (users_truncate\<lparr>err := Some e\<rparr>) = ([], [], Some e)"
  "InsertDataset_ToSQL sample_env [] (users_insert\<lparr>err := Some e\<rparr>) = ([], [], Some e)"
  "UpdateDataset_ToSQL sample_env (users_update\<lparr>err := Some e\<rparr>) = ([], [], Some e)"
  "DeleteDataset_ToSQL sample_env (users_delete\<lparr>err := Some e\<rparr>) = ([], [], Some e)"
  by (simp_all add: TruncateDataset_ToSQL_def truncateSQLBuilder_def InsertDataset_ToSQL_def
      insertSQLBuilder_def UpdateDataset_ToSQL_def updateSQLBuilder_def DeleteDataset_ToSQL_def
      deleteSQLBuilder_def builder_defs)



lemma sample_sticky_calls:
  "TruncateDataset_call sample_env [users_truncate\<lparr>err := Some (ErrOther ''boom'')\<rparr>] 0 T_Cascade
     = Inr ([users_truncate\<lparr>err := Some (ErrOther ''boom'')\<rparr>,
             TruncateDataset_Cascade (users_truncate\<lparr>err := Some (ErrOther ''boom'')\<rparr>)], 1)"
  "InsertDataset_call sample_env [users_insert\<lparr>err := Some (ErrOther ''boom'')\<rparr>] [other_select] 0
       (I_Rows [RecordArg [(''name'', StringArg ''Bob'')]])
     = Inr ([users_insert\<lparr>err := Some (ErrOther ''boom'')\<rparr>,
             InsertDataset_Rows (users_insert\<lparr>err := Some (ErrOther ''boom'')\<rparr>)
               [RecordArg [(''name'', StringArg ''Bob'')]]],
            [other_select], 1)"
  "UpdateDataset_call sample_env [users_update\<lparr>err := Some (ErrOther ''boom'')\<rparr>] 0 (U_Limit 5)
     = Inr ([users_update\<lparr>err := Some (ErrOther ''boom'')\<rparr>,
             UpdateDataset_Limit (users_update\<lparr>err := Some (ErrOther ''boom'')\<rparr>) 5], 1)"
  "DeleteDataset_call sample_env [users_delete\<lparr>err := Some (ErrOther ''boom'')\<rparr>] 0
       (D_SetError (Some (ErrOther ''later'')))
     = Inr ([users_delete\<lparr>err := Some (ErrOther ''boom'')\<rparr>], 0)"
     apply (simp add: TruncateDataset_call_def new_def)
    apply (simp add: InsertDataset_call_def new_insert_def new_def)
   apply (simp add: UpdateDataset_call_def new_def)
  apply (simp add: DeleteDataset_call_def SetError_def)
  done

lemma sample_FromQuery_calls:
  "InsertDataset_call sample_env [users_insert] [other_select\<lparr>dialect := 1\<rparr>] 0
       (I_FromQuery (SelectDatasetPtr 0))
     = Inl (ErrIncompatibleDialects ''default'' ''postgres'')"
  "InsertDataset_call sample_env [users_insert\<lparr>dialect := 1\<rparr>] [other_select] 0
       (I_FromQuery (SelectDatasetPtr 0))
     = Inr ([users_insert\<lparr>dialect := 1\<rparr>,
             copy (users_insert\<lparr>dialect := 1\<rparr>)
               (InsertClauses_SetFrom (clauses users_insert) (SelectDatasetPtr 0))],
            [other_select\<lparr>dialect := 1\<rparr>], 1)"
  by (simp_all add: FromQuery_call_select sample_env_def sample_name_def users_insert_def
      other_select_def)

lemma sample_nested_sql:
  "InsertDataset_ToSQL sample_env [other_select\<lparr>dialect := d\<rparr>]
     (copy (users_insert\<lparr>dialect := 1\<rparr>)
        (InsertClauses_SetFrom (clauses users_insert) (SelectDatasetPtr 0)))
   = (''INSERT[postgres] SELECT['' @ sample_name d @ '']'', [], None)"
  by (simp add: InsertDataset_ToSQL_def insertSQLBuilder_def dialect_ToInsertSQL_def
      row_source_AppendSQL_def SelectDataset_AppendSQL_def InsertClauses_SetFrom_def
      GetClauses_def prepared_Bool_def builder_defs sample_defs)


section \<open>Properties of the dataset builders\<close>




text \<open>
  The exception above is needed: an insert builder under the postgres dialect whose row source
  is a \<open>SelectDataset\<close> still under the default dialect renders that row source under the
  default dialect; \<open>FromQuery\<close> on it with the same \<open>SelectDataset\<close> overwrites the
  argument's dialect, and the receiver then renders the row source under postgres.
\<close>

lemma FromQuery_rewrites_shared_row_source:
  "rerenders_row_source
       (users_insert\<lparr>dialect := 1, clauses := InsertClauses_SetFrom (clauses users_insert) (SelectDatasetPtr 0)\<rparr>)
       [other_select] (I_FromQuery (SelectDatasetPtr 0))
   \<and> InsertDataset_call sample_env
       [users_insert\<lparr>dialect := 1, clauses := InsertClauses_SetFrom (clauses users_insert) (SelectDatasetPtr 0)\<rparr>]
       [other_select] 0 (I_FromQuery (SelectDatasetPtr 0))
     = Inr ([users_insert\<lparr>dialect := 1, clauses := InsertClauses_SetFrom (clauses users_insert) (SelectDatasetPtr 0)\<rparr>,
             users_insert\<lparr>dialect := 1, clauses := InsertClauses_SetFrom (clauses users_insert) (SelectDatasetPtr 0)\<rparr>],
            [other_select\<lparr>dialect := 1\<rparr>], 1)
   \<and> InsertDataset_ToSQL sample_env [other_select]
        (users_insert\<lparr>dialect := 1, clauses := InsertClauses_SetFrom (clauses users_insert) (SelectDatasetPtr 0)\<rparr>)
     = (''INSERT[postgres] SELECT[default]'', [], None)
   \<and> InsertDataset_ToSQL sample_env [other_select\<lparr>dialect := 1\<rparr>]
        (users_insert\<lparr>dialect := 1, clauses := InsertClauses_SetFrom (clauses users_insert) (SelectDatasetPtr 0)\<rparr>)
     = (''INSERT[postgres] SELECT[postgres]'', [], None)"
  by (simp add: FromQuery_call_select InsertDataset_ToSQL_def insertSQLBuilder_def
      dialect_ToInsertSQL_def row_source_AppendSQL_def SelectDataset_AppendSQL_def
      InsertClauses_SetFrom_def GetClauses_def prepared_Bool_def copy_def builder_defs sample_defs)

text \<open>
  C2. If the builder at the receiver pointer carries a sticky error, then after any mutator
  call that returns, the builder at the returned pointer carries the same error, its
  \<open>ToSQL()\<close> returns that error with empty text and no parameters, and the builder handed back
  by the SQL-builder helper is a new one holding only the error, whatever the dialect's
  renderer would write: the rendering entry point is not run.
\<close>

theorem sticky_error_propagates:
  "(TruncateDataset_call env ht pt ct = Inr (ht', pt') \<and> Error (ht ! pt) = Some et \<longrightarrow>
      Error (ht' ! pt') = Error (ht ! pt)
      \<and> TruncateDataset_ToSQL env (ht' ! pt') = ([], [], Some et)
      \<and> truncateSQLBuilder env (ht' ! pt') = sb_SetError (NewSQLBuilder (IsPrepared env (ht' ! pt'))) et)
   \<and> (InsertDataset_call env hi hs pn cn = Inr (hi', hs', pn') \<and> Error (hi ! pn) = Some en \<longrightarrow>
      Error (hi' ! pn') = Error (hi ! pn)
      \<and> InsertDataset_ToSQL env hs' (hi' ! pn') = ([], [], Some en)
      \<and> insertSQLBuilder env hs' (hi' ! pn') = sb_SetError (NewSQLBuilder (IsPrepared env (hi' ! pn'))) en)
   \<and> (UpdateDataset_call env hu pu cu = Inr (hu', pu') \<and> Error (hu ! pu) = Some eu \<longrightarrow>
      Error (hu' ! pu') = Error (hu ! pu)
      \<and> UpdateDataset_ToSQL env (hu' ! pu') = ([], [], Some eu)
      \<and> updateSQLBuilder env (hu' ! pu') = sb_SetError (NewSQLBuilder (IsPrepared env (hu' ! pu'))) eu)
   \<and> (DeleteDataset_call env hx px cx = Inr (hx', px') \<and> Error (hx ! px) = Some ex \<longrightarrow>
      Error (hx' ! px') = Error (hx ! px)
      \<and> DeleteDataset_ToSQL env (hx' ! px') = ([], [], Some ex)
      \<and> deleteSQLBuilder env (hx' ! px') = sb_SetError (NewSQLBuilder (IsPrepared env (hx' ! px'))) ex)"
proof (intro conjI impI)
  assume a: "TruncateDataset_call env ht pt ct = Inr (ht', pt') \<and> Error (ht ! pt) = Some et"
  then have e: "err (ht' ! pt') = Some et"
    by (auto simp: Error_def dest: truncate_call_sticky)
  with a show "Error (ht' ! pt') = Error (ht ! pt)" by (simp add: Error_def)
  from e show "truncateSQLBuilder env (ht' ! pt') = sb_SetError (NewSQLBuilder (IsPrepared env (ht' ! pt'))) et"
    by (rule ToSQL_sticky)
  then show "TruncateDataset_ToSQL env (ht' ! pt') = ([], [], Some et)"
    by (simp add: TruncateDataset_ToSQL_def sb_ToSQL_SetError_new)
next
  assume a: "InsertDataset_call env hi hs pn cn = Inr (hi', hs', pn') \<and> Error (hi ! pn) = Some en"
  then have e: "err (hi' ! pn') = Some en"
    by (auto simp: Error_def dest: insert_call_sticky)
  with a show "Error (hi' ! pn') = Error (hi ! pn)" by (simp add: Error_def)
  from e show "insertSQLBuilder env hs' (hi' ! pn') = sb_SetError (NewSQLBuilder (IsPrepared env (hi' ! pn'))) en"
    by (rule ToSQL_sticky)
  then show "InsertDataset_ToSQL env hs' (hi' ! pn') = ([], [], Some en)"
    by (simp add: InsertDataset_ToSQL_def sb_ToSQL_SetError_new)
next
  assume a: "UpdateDataset_call env hu pu cu = Inr (hu', pu') \<and> Error (hu ! pu) = Some eu"
  then have e: "err (hu' ! pu') = Some eu"
    by (auto simp: Error_def dest: update_call_sticky)
  with a show "Error (hu' ! pu') = Error (hu ! pu)" by (simp add: Error_def)
  from e show "updateSQLBuilder env (hu' ! pu') = sb_SetError (NewSQLBuilder (IsPrepared env (hu' ! pu'))) eu"
    by (rule ToSQL_sticky)
  then show "UpdateDataset_ToSQL env (hu' ! pu') = ([], [], Some eu)"
    by (simp add: UpdateDataset_ToSQL_def sb_ToSQL_SetError_new)
next
  assume a: "DeleteDataset_call env hx px cx = Inr (hx', px') \<and> Error (hx ! px) = Some ex"
  then have e: "err (hx' ! px') = Some ex"
    by (auto simp: Error_def dest: delete_call_sticky)
  with a show "Error (hx' ! px') = Error (hx ! px)" by (simp add: Error_def)
  from e show "deleteSQLBuilder env (hx' ! px') = sb_SetError (NewSQLBuilder (IsPrepared env (hx' ! px'))) ex"
    by (rule ToSQL_sticky)
  then show "DeleteDataset_ToSQL env (hx' ! px') = ([], [], Some ex)"
    by (simp add: DeleteDataset_ToSQL_def sb_ToSQL_SetError_new)
qed

theorem sticky_error_propagates_witness:
  "TruncateDataset_call sample_env [users_truncate\<lparr>err := Some (ErrOther ''boom'')\<rparr>] 0 T_Cascade
     = Inr ([users_truncate\<lparr>err := Some (ErrOther ''boom'')\<rparr>,
             TruncateDataset_Cascade (users_truncate\<lparr>err := Some (ErrOther ''boom'')\<rparr>)], 1)
   \<and> Error ([users_truncate\<lparr>err := Some (ErrOther ''boom'')\<rparr>] ! 0) = Some (ErrOther ''boom'')
   \<and> TruncateDataset_ToSQL sample_env
        ([users_truncate\<lparr>err := Some (ErrOther ''boom'')\<rparr>,
          TruncateDataset_Cascade (users_truncate\<lparr>err := Some (ErrOther ''boom'')\<rparr>)] ! 1)
       = ([], [], Some (ErrOther ''boom''))
   \<and> InsertDataset_ToSQL sample_env [other_select]
        ([users_insert\<lparr>err := Some (ErrOther ''boom'')\<rparr>,
          InsertDataset_Rows (users_insert\<lparr>err := Some (ErrOther ''boom'')\<rparr>)
            [RecordArg [(''name'', StringArg ''Bob'')]]] ! 1)
       = ([], [], Some (ErrOther ''boom''))
   \<and> UpdateDataset_ToSQL sample_env
        ([users_update\<lparr>err := Some (ErrOther ''boom'')\<rparr>,
          UpdateDataset_Limit (users_update\<lparr>err := Some (ErrOther ''boom'')\<rparr>) 5] ! 1)
       = ([], [], Some (ErrOther ''boom''))
   \<and> DeleteDataset_call sample_env [users_delete\<lparr>err := Some (ErrOther ''boom'')\<rparr>] 0
       (D_SetError (Some (ErrOther ''later'')))
     = Inr ([users_delete\<lparr>err := Some (ErrOther ''boom'')\<rparr>], 0)
   \<and> DeleteDataset_ToSQL sample_env ([users_delete\<lparr>err := Some (ErrOther ''boom'')\<rparr>] ! 0)
       = ([], [], Some (ErrOther ''boom''))"
proof -
  have e: "Error ([users_truncate\<lparr>err := Some (ErrOther ''boom'')\<rparr>] ! 0) = Some (ErrOther ''boom'')"
    "Error ([users_insert\<lparr>err := Some (ErrOther ''boom'')\<rparr>] ! 0) = Some (ErrOther ''boom'')"
    "Error ([users_update\<lparr>err := Some (ErrOther ''boom'')\<rparr>] ! 0) = Some (ErrOther ''boom'')"
    "Error ([users_delete\<lparr>err := Some (ErrOther ''boom'')\<rparr>] ! 0) = Some (ErrOther ''boom'')"
    by (simp_all add: Error_def)
  note w = sticky_error_propagates
    [where env = sample_env
       and ht = "[users_truncate\<lparr>err := Some (ErrOther ''boom'')\<rparr>]" and pt = 0 and ct = T_Cascade
       and ht' = "[users_truncate\<lparr>err := Some (ErrOther ''boom'')\<rparr>,
             TruncateDataset_Cascade (users_truncate\<lparr>err := Some (ErrOther ''boom'')\<rparr>)]"
       and pt' = 1 and et = "ErrOther ''boom''"
       and hi = "[users_insert\<lparr>err := Some (ErrOther ''boom'')\<rparr>]" and hs = "[other_select]"
       and pn = 0 and cn = "I_Rows [RecordArg [(''name'', StringArg ''Bob'')]]"
       and hi' = "[users_insert\<lparr>err := Some (ErrOther ''boom'')\<rparr>,
             InsertDataset_Rows (users_insert\<lparr>err := Some (ErrOther ''boom'')\<rparr>)
               [RecordArg [(''name'', StringArg ''Bob'')]]]"
       and hs' = "[other_select]" and pn' = 1 and en = "ErrOther ''boom''"
       and hu = "[users_update\<lparr>err := Some (ErrOther ''boom'')\<rparr>]" and pu = 0 and cu = "U_Limit 5"
       and hu' = "[users_update\<lparr>err := Some (ErrOther ''boom'')\<rparr>,
             UpdateDataset_Limit (users_update\<lparr>err := Some (ErrOther ''boom'')\<rparr>) 5]"
       and pu' = 1 and eu = "ErrOther ''boom''"
       and hx = "[users_delete\<lparr>err := Some (ErrOther ''boom'')\<rparr>]" and px = 0
       and cx = "D_SetError (Some (ErrOther ''later''))"
       and hx' = "[users_delete\<lparr>err := Some (ErrOther ''boom'')\<rparr>]" and px' = 0
       and ex = "ErrOther ''boom''"]
  from w sample_sticky_calls e show ?thesis
    by simp
qed

text \<open>
  C3. After \<open>b.SetError(e1).SetError(e2)\<close> with two non-nil errors, \<open>Error()\<close> is the first
  error recorded on \<open>b\<close>: \<open>e1\<close> when \<open>b\<close> had none, and the error \<open>b\<close> already carried
  otherwise. The returned pointer is the receiver's.
\<close>

theorem SetError_first_error_wins:
  "SetError h p (Some e1) = (h1, p1) \<Longrightarrow> SetError h1 p1 (Some e2) = (h2, p2) \<Longrightarrow> p < length h \<Longrightarrow>
   p2 = p \<and> Error (h2 ! p2) = (case Error (h ! p) of None \<Rightarrow> Some e1 | Some e0 \<Rightarrow> Some e0)"
  by (auto simp: SetError_def Error_def split: if_splits option.splits)

theorem SetError_first_error_wins_witness:
  "SetError [users_truncate] 0 (Some (ErrOther ''a''))
     = ([users_truncate\<lparr>err := Some (ErrOther ''a'')\<rparr>], 0)
   \<and> SetError [users_truncate\<lparr>err := Some (ErrOther ''a'')\<rparr>] 0 (Some (ErrOther ''b''))
     = ([users_truncate\<lparr>err := Some (ErrOther ''a'')\<rparr>], 0)
   \<and> (0::nat) < length [users_truncate]
   \<and> Error ([users_truncate\<lparr>err := Some (ErrOther ''a'')\<rparr>] ! 0) = Some (ErrOther ''a'')"
proof -
  have a: "SetError [users_truncate] 0 (Some (ErrOther ''a''))
     = ([users_truncate\<lparr>err := Some (ErrOther ''a'')\<rparr>], 0)"
    by (simp add: SetError_def users_truncate_def)
  have b: "SetError [users_truncate\<lparr>err := Some (ErrOther ''a'')\<rparr>] 0 (Some (ErrOther ''b''))
     = ([users_truncate\<lparr>err := Some (ErrOther ''a'')\<rparr>], 0)"
    by (simp add: SetError_def)
  have c: "(0::nat) < length [users_truncate]" by simp
  from SetError_first_error_wins [OF a b c] a b c show ?thesis
    by (simp add: Error_def users_truncate_def)
qed

text \<open>
  The claim as stated, for every builder \<open>b\<close>, fails on a builder that already carries an
  error \<open>e0\<close>: the result is \<open>e0\<close>, not \<open>e1\<close>.
\<close>

theorem SetError_keeps_earlier_error_counterexample:
  "Error (fst (SetError (fst (SetError (fst (SetError [users_truncate] 0 (Some (ErrOther ''e0''))))
       0 (Some (ErrOther ''e1'')))) 0 (Some (ErrOther ''e2''))) ! 0) = Some (ErrOther ''e0'')
   \<and> Error (fst (SetError (fst (SetError (fst (SetError [users_truncate] 0 (Some (ErrOther ''e0''))))
       0 (Some (ErrOther ''e1'')))) 0 (Some (ErrOther ''e2''))) ! 0) \<noteq> Some (ErrOther ''e1'')
   \<and> ErrOther ''e1'' \<noteq> ErrOther ''e2''"
  by (simp add: SetError_def Error_def users_truncate_def)

text \<open>
  C4. \<open>FromQuery\<close> on a pointer to a \<open>SelectDataset\<close>: if the argument's dialect is not the
  default and differs from the receiver's dialect \<open>P\<close>, the call panics with the
  incompatible-dialects error and returns no builder; if the argument's dialect is the
  default, the call returns a builder with dialect \<open>P\<close> whose row source is the argument, the
  argument's dialect is \<open>P\<close> afterwards, and the text, parameters and error of the result's
  \<open>ToSQL()\<close> are the same in every environment that agrees with this one on the renderers of
  \<open>P\<close>: no other dialect's renderer takes part.
\<close>

theorem FromQuery_dialect_consistency:
  "(pn < length hi \<and> q < length hs \<and> Dialect (hs ! q) \<noteq> GetDialect env ''default''
      \<and> Dialect (hs ! q) \<noteq> Dialect (hi ! pn) \<longrightarrow>
      InsertDataset_call env hi hs pn (I_FromQuery (SelectDatasetPtr q))
        = Inl (ErrIncompatibleDialects (DialectName env (Dialect (hi ! pn)))
                 (DialectName env (Dialect (hs ! q)))))
   \<and> (pn < length hi \<and> q < length hs \<and> Dialect (hs ! q) = GetDialect env ''default'' \<longrightarrow>
      (\<exists>hi' hs' pn'.
          InsertDataset_call env hi hs pn (I_FromQuery (SelectDatasetPtr q)) = Inr (hi', hs', pn')
          \<and> Dialect (hi' ! pn') = Dialect (hi ! pn)
          \<and> ic_from (GetClauses (hi' ! pn')) = Some (SelectDatasetPtr q)
          \<and> Dialect (hs' ! q) = Dialect (hi ! pn)
          \<and> (\<forall>env'. agree_on (Dialect (hi ! pn)) env env' \<longrightarrow>
                InsertDataset_ToSQL env' hs' (hi' ! pn') = InsertDataset_ToSQL env hs' (hi' ! pn'))))"
proof (intro conjI impI)
  assume "pn < length hi \<and> q < length hs \<and> Dialect (hs ! q) \<noteq> GetDialect env ''default''
      \<and> Dialect (hs ! q) \<noteq> Dialect (hi ! pn)"
  then show "InsertDataset_call env hi hs pn (I_FromQuery (SelectDatasetPtr q))
        = Inl (ErrIncompatibleDialects (DialectName env (Dialect (hi ! pn)))
                 (DialectName env (Dialect (hs ! q))))"
    by (auto simp: FromQuery_call_select Dialect_def)
next
  assume a: "pn < length hi \<and> q < length hs \<and> Dialect (hs ! q) = GetDialect env ''default''"
  let ?b = "copy (hi ! pn) (InsertClauses_SetFrom (clauses (hi ! pn)) (SelectDatasetPtr q))"
  let ?hs = "hs[q := (hs ! q)\<lparr>dialect := dialect (hi ! pn)\<rparr>]"
  from a have c: "InsertDataset_call env hi hs pn (I_FromQuery (SelectDatasetPtr q))
      = Inr (hi @ [?b], ?hs, length hi)"
    by (simp add: FromQuery_call_select Dialect_def)
  have b: "(hi @ [?b]) ! length hi = ?b" by simp
  from a have s: "dialect (?hs ! q) = dialect (hi ! pn)" by simp
  have f: "ic_from (clauses ?b) = Some (SelectDatasetPtr q)"
    by (simp add: InsertClauses_SetFrom_def)
  have "\<forall>env'. agree_on (Dialect (hi ! pn)) env env' \<longrightarrow>
      InsertDataset_ToSQL env' ?hs ?b = InsertDataset_ToSQL env ?hs ?b"
    using f s by (auto simp: Dialect_def intro!: ToSQL_agree)
  with c b s f show "\<exists>hi' hs' pn'.
          InsertDataset_call env hi hs pn (I_FromQuery (SelectDatasetPtr q)) = Inr (hi', hs', pn')
          \<and> Dialect (hi' ! pn') = Dialect (hi ! pn)
          \<and> ic_from (GetClauses (hi' ! pn')) = Some (SelectDatasetPtr q)
          \<and> Dialect (hs' ! q) = Dialect (hi ! pn)
          \<and> (\<forall>env'. agree_on (Dialect (hi ! pn)) env env' \<longrightarrow>
                InsertDataset_ToSQL env' hs' (hi' ! pn') = InsertDataset_ToSQL env hs' (hi' ! pn'))"
    by (simp add: Dialect_def GetClauses_def)
qed

theorem FromQuery_dialect_consistency_witness:
  "InsertDataset_call sample_env [users_insert] [other_select\<lparr>dialect := 1\<rparr>] 0
       (I_FromQuery (SelectDatasetPtr 0))
     = Inl (ErrIncompatibleDialects ''default'' ''postgres'')
   \<and> InsertDataset_call sample_env [users_insert\<lparr>dialect := 1\<rparr>] [other_select] 0
       (I_FromQuery (SelectDatasetPtr 0))
     = Inr ([users_insert\<lparr>dialect := 1\<rparr>,
             copy (users_insert\<lparr>dialect := 1\<rparr>)
               (InsertClauses_SetFrom (clauses users_insert) (SelectDatasetPtr 0))],
            [other_select\<lparr>dialect := 1\<rparr>], 1)
   \<and> Dialect ([other_select\<lparr>dialect := 1\<rparr>] ! 0) = 1
   \<and> InsertDataset_ToSQL sample_env [other_select\<lparr>dialect := 1\<rparr>]
        ([users_insert\<lparr>dialect := 1\<rparr>,
          copy (users_insert\<lparr>dialect := 1\<rparr>)
            (InsertClauses_SetFrom (clauses users_insert) (SelectDatasetPtr 0))] ! 1)
     = (''INSERT[postgres] SELECT[postgres]'', [], None)
   \<and> InsertDataset_ToSQL
        (sample_env\<lparr>ToSelectSQL := (\<lambda>d b c. if d = 1 then ToSelectSQL sample_env d b c
                                             else sb_Write b ''?'')\<rparr>)
        [other_select\<lparr>dialect := 1\<rparr>]
        ([users_insert\<lparr>dialect := 1\<rparr>,
          copy (users_insert\<lparr>dialect := 1\<rparr>)
            (InsertClauses_SetFrom (clauses users_insert) (SelectDatasetPtr 0))] ! 1)
     = (''INSERT[postgres] SELECT[postgres]'', [], None)"
proof -
  let ?env' = "sample_env\<lparr>ToSelectSQL := (\<lambda>d b c. if d = 1 then ToSelectSQL sample_env d b c
                                             else sb_Write b ''?'')\<rparr>"
  let ?b = "copy (users_insert\<lparr>dialect := 1\<rparr>)
               (InsertClauses_SetFrom (clauses users_insert) (SelectDatasetPtr 0))"
  have h1: "(0::nat) < length [users_insert] \<and> (0::nat) < length [other_select\<lparr>dialect := 1\<rparr>]
      \<and> Dialect ([other_select\<lparr>dialect := 1\<rparr>] ! 0) \<noteq> GetDialect sample_env ''default''
      \<and> Dialect ([other_select\<lparr>dialect := 1\<rparr>] ! 0) \<noteq> Dialect ([users_insert] ! 0)"
    by (simp add: Dialect_def sample_env_def users_insert_def)
  have h2: "(0::nat) < length [users_insert\<lparr>dialect := 1\<rparr>] \<and> (0::nat) < length [other_select]
      \<and> Dialect ([other_select] ! 0) = GetDialect sample_env ''default''"
    by (simp add: Dialect_def sample_env_def other_select_def)
  have g: "agree_on (Dialect ([users_insert\<lparr>dialect := 1\<rparr>] ! 0)) sample_env ?env'"
    by (simp add: agree_on_def Dialect_def fun_eq_iff)
  from FromQuery_dialect_consistency
    [where env = sample_env and hi = "[users_insert]" and hs = "[other_select\<lparr>dialect := 1\<rparr>]"
       and pn = 0 and q = 0] h1
  have a: "InsertDataset_call sample_env [users_insert] [other_select\<lparr>dialect := 1\<rparr>] 0
       (I_FromQuery (SelectDatasetPtr 0))
     = Inl (ErrIncompatibleDialects (DialectName sample_env (Dialect ([users_insert] ! 0)))
         (DialectName sample_env (Dialect ([other_select\<lparr>dialect := 1\<rparr>] ! 0))))"
    by blast
  from FromQuery_dialect_consistency
    [where env = sample_env and hi = "[users_insert\<lparr>dialect := 1\<rparr>]" and hs = "[other_select]"
       and pn = 0 and q = 0] h2
  obtain hi' hs' pn' where
    c: "InsertDataset_call sample_env [users_insert\<lparr>dialect := 1\<rparr>] [other_select] 0
          (I_FromQuery (SelectDatasetPtr 0)) = Inr (hi', hs', pn')"
    and d: "Dialect (hs' ! 0) = Dialect ([users_insert\<lparr>dialect := 1\<rparr>] ! 0)"
    and r: "\<forall>env'. agree_on (Dialect ([users_insert\<lparr>dialect := 1\<rparr>] ! 0)) sample_env env' \<longrightarrow>
          InsertDataset_ToSQL env' hs' (hi' ! pn') = InsertDataset_ToSQL sample_env hs' (hi' ! pn')"
    by blast
  from c sample_FromQuery_calls(2)
  have v: "hi' = [users_insert\<lparr>dialect := 1\<rparr>, ?b]" "hs' = [other_select\<lparr>dialect := 1\<rparr>]"
    "pn' = 1"
    by simp_all
  from r g have "InsertDataset_ToSQL ?env' hs' (hi' ! pn') = InsertDataset_ToSQL sample_env hs' (hi' ! pn')"
    by blast
  with v have e: "InsertDataset_ToSQL ?env' [other_select\<lparr>dialect := 1\<rparr>] ?b
      = (''INSERT[postgres] SELECT[postgres]'', [], None)"
    using sample_nested_sql [of 1] by (simp add: sample_name_def)
  from a c v d e sample_nested_sql [of 1] show ?thesis
    by (simp add: sample_name_def sample_env_def Dialect_def users_insert_def)
qed

text \<open>
  C5. A table or target argument is checked at the call. \<open>InsertDataset.Into\<close> and
  \<open>UpdateDataset.Table\<close> accept a string or an expression, \<open>DeleteDataset.From\<close> a string
  or an identifier expression; the builder returned holds the expression (for a string, the
  identifier parsed from it) in its clause record and carries the receiver's sticky error
  unchanged. Any other argument makes the call panic with the error value of that method
  (\<open>ErrUnsupportedIntoType\<close>, \<open>ErrUnsupportedUpdateTableType\<close>, \<open>ErrBadFromArgument\<close>):
  the call returns no builder, so nothing is deferred to a sticky error.
\<close>

theorem target_argument_checked_at_call:
  "(name_or_expression a \<longrightarrow>
      (\<exists>v. InsertDataset_Into b a = Inr v \<and> ic_into (GetClauses v) = Some (target_of a)
            \<and> Error v = Error b)
      \<and> (\<exists>v. UpdateDataset_Table ud a = Inr v \<and> uc_table (GetClauses v) = Some (target_of a)
            \<and> Error v = Error ud))
   \<and> (\<not> name_or_expression a \<longrightarrow>
      InsertDataset_Into b a = Inl ErrUnsupportedIntoType
      \<and> UpdateDataset_Table ud a = Inl ErrUnsupportedUpdateTableType
      \<and> (pn < length hi \<longrightarrow> InsertDataset_call env hi hs pn (I_Into a) = Inl ErrUnsupportedIntoType)
      \<and> (pu < length hu \<longrightarrow>
            UpdateDataset_call env hu pu (U_Table a) = Inl ErrUnsupportedUpdateTableType))
   \<and> (name_or_identifier a \<longrightarrow>
      (\<exists>v. DeleteDataset_From dd a = Inr v \<and> dc_from (GetClauses v) = Some (target_of a)
            \<and> Error v = Error dd))
   \<and> (\<not> name_or_identifier a \<longrightarrow>
      DeleteDataset_From dd a = Inl ErrBadFromArgument
      \<and> (px < length hx \<longrightarrow> DeleteDataset_call env hx px (D_From a) = Inl ErrBadFromArgument))"
  by (simp add: InsertDataset_Into_cases UpdateDataset_Table_cases DeleteDataset_From_cases
      InsertDataset_call_def UpdateDataset_call_def DeleteDataset_call_def
      new_insert_def new_result_def
      GetClauses_def Error_def InsertClauses_SetInto_def UpdateClauses_SetTable_def
      DeleteClauses_SetFrom_def)

theorem target_argument_checked_at_call_witness:
  "name_or_expression (StringArg ''accounts'')
   \<and> ic_into (GetClauses (copy users_insert
         (InsertClauses_SetInto (clauses users_insert) (IdentifierExpression ''accounts''))))
       = Some (IdentifierExpression ''accounts'')
   \<and> InsertDataset_Into users_insert (StringArg ''accounts'')
       = Inr (copy users_insert
           (InsertClauses_SetInto (clauses users_insert) (IdentifierExpression ''accounts'')))
   \<and> \<not> name_or_expression (IntArg 5)
   \<and> InsertDataset_Into users_insert (IntArg 5) = Inl ErrUnsupportedIntoType
   \<and> UpdateDataset_Table users_update (IntArg 5) = Inl ErrUnsupportedUpdateTableType
   \<and> InsertDataset_call sample_env [users_insert] [] 0 (I_Into (IntArg 5)) = Inl ErrUnsupportedIntoType
   \<and> UpdateDataset_call sample_env [users_update] 0 (U_Table (IntArg 5))
       = Inl ErrUnsupportedUpdateTableType
   \<and> name_or_expression (ExprArg (LiteralExpression ''t'')) 
   \<and> \<not> name_or_identifier (ExprArg (LiteralExpression ''t''))
   \<and> DeleteDataset_From users_delete (ExprArg (LiteralExpression ''t'')) = Inl ErrBadFromArgument
   \<and> DeleteDataset_call sample_env [users_delete] 0 (D_From (ExprArg (LiteralExpression ''t'')))
       = Inl ErrBadFromArgument
   \<and> name_or_identifier (ExprArg (IdentifierExpression ''t''))
   \<and> DeleteDataset_From users_delete (ExprArg (IdentifierExpression ''t''))
       = Inr (copy users_delete (DeleteClauses_SetFrom (clauses users_delete) (IdentifierExpression ''t'')))"
proof -
  note w1 = target_argument_checked_at_call
    [where a = "StringArg ''accounts''" and b = users_insert and ud = users_update and dd = users_delete]
  note w2 = target_argument_checked_at_call
    [where a = "IntArg 5" and b = users_insert and ud = users_update and dd = users_delete
       and env = sample_env and hi = "[users_insert]" and hs = "[]" and pn = 0
       and hu = "[users_update]" and pu = 0 and hx = "[users_delete]" and px = 0]
  note w3 = target_argument_checked_at_call
    [where a = "ExprArg (LiteralExpression ''t'')" and b = users_insert and ud = users_update
       and dd = users_delete and env = sample_env and hx = "[users_delete]" and px = 0]
  note w4 = target_argument_checked_at_call
    [where a = "ExprArg (IdentifierExpression ''t'')" and b = users_insert and ud = users_update
       and dd = users_delete]
  from w1 have a1: "\<exists>v. InsertDataset_Into users_insert (StringArg ''accounts'') = Inr v
      \<and> ic_into (GetClauses v) = Some (target_of (StringArg ''accounts''))"
    by auto
  from w2 have a2: "InsertDataset_Into users_insert (IntArg 5) = Inl ErrUnsupportedIntoType"
    "UpdateDataset_Table users_update (IntArg 5) = Inl ErrUnsupportedUpdateTableType"
    "InsertDataset_call sample_env [users_insert] [] 0 (I_Into (IntArg 5)) = Inl ErrUnsupportedIntoType"
    "UpdateDataset_call sample_env [users_update] 0 (U_Table (IntArg 5))
       = Inl ErrUnsupportedUpdateTableType"
    by simp_all
  from w3 have a3: "DeleteDataset_From users_delete (ExprArg (LiteralExpression ''t'')) = Inl ErrBadFromArgument"
    "DeleteDataset_call sample_env [users_delete] 0 (D_From (ExprArg (LiteralExpression ''t'')))
       = Inl ErrBadFromArgument"
    by simp_all
  from w4 have a4: "\<exists>v. DeleteDataset_From users_delete (ExprArg (IdentifierExpression ''t'')) = Inr v
      \<and> dc_from (GetClauses v) = Some (target_of (ExprArg (IdentifierExpression ''t'')))"
    by auto
  from a1 a2 a3 a4 show ?thesis
    by (auto simp: InsertDataset_Into_def DeleteDataset_From_def ParseIdentifier_def GetClauses_def
        InsertClauses_SetInto_def)
qed

text \<open>
  C6. For each of the four kinds, \<open>MustToSQL()\<close> panics exactly when \<open>ToSQL()\<close> returns a
  non-nil error, the panic value is that error, and when the error is nil \<open>MustToSQL()\<close>
  returns the text and the parameters that \<open>ToSQL()\<close> returns.
\<close>

theorem MustToSQL_panics_iff_ToSQL_fails:
  "((\<exists>e. TruncateDataset_MustToSQL env td = Inl e) = (snd (snd (TruncateDataset_ToSQL env td)) \<noteq> None))
   \<and> (snd (snd (TruncateDataset_ToSQL env td)) = Some et \<longrightarrow> TruncateDataset_MustToSQL env td = Inl et)
   \<and> (snd (snd (TruncateDataset_ToSQL env td)) = None \<longrightarrow>
        TruncateDataset_MustToSQL env td
          = Inr (fst (TruncateDataset_ToSQL env td), fst (snd (TruncateDataset_ToSQL env td))))
   \<and> ((\<exists>e. InsertDataset_MustToSQL env hs id' = Inl e) = (snd (snd (InsertDataset_ToSQL env hs id')) \<noteq> None))
   \<and> (snd (snd (InsertDataset_ToSQL env hs id')) = Some ei \<longrightarrow> InsertDataset_MustToSQL env hs id' = Inl ei)
   \<and> (snd (snd (InsertDataset_ToSQL env hs id')) = None \<longrightarrow>
        InsertDataset_MustToSQL env hs id'
          = Inr (fst (InsertDataset_ToSQL env hs id'), fst (snd (InsertDataset_ToSQL env hs id'))))
   \<and> ((\<exists>e. UpdateDataset_MustToSQL env ud = Inl e) = (snd (snd (UpdateDataset_ToSQL env ud)) \<noteq> None))
   \<and> (snd (snd (UpdateDataset_ToSQL env ud)) = Some eu \<longrightarrow> UpdateDataset_MustToSQL env ud = Inl eu)
   \<and> (snd (snd (UpdateDataset_ToSQL env ud)) = None \<longrightarrow>
        UpdateDataset_MustToSQL env ud
          = Inr (fst (UpdateDataset_ToSQL env ud), fst (snd (UpdateDataset_ToSQL env ud))))
   \<and> ((\<exists>e. DeleteDataset_MustToSQL env dd = Inl e) = (snd (snd (DeleteDataset_ToSQL env dd)) \<noteq> None))
   \<and> (snd (snd (DeleteDataset_ToSQL env dd)) = Some ed \<longrightarrow> DeleteDataset_MustToSQL env dd = Inl ed)
   \<and> (snd (snd (DeleteDataset_ToSQL env dd)) = None \<longrightarrow>
        DeleteDataset_MustToSQL env dd
          = Inr (fst (DeleteDataset_ToSQL env dd), fst (snd (DeleteDataset_ToSQL env dd))))"
  unfolding TruncateDataset_MustToSQL_def TruncateDataset_ToSQL_def
    InsertDataset_MustToSQL_def InsertDataset_ToSQL_def
    UpdateDataset_MustToSQL_def UpdateDataset_ToSQL_def
    DeleteDataset_MustToSQL_def DeleteDataset_ToSQL_def sb_ToSQL_cases
  by (simp split: option.splits)

theorem MustToSQL_panics_iff_ToSQL_fails_witness:
  "TruncateDataset_MustToSQL sample_env users_truncate
     = Inr (''TRUNCATE '' @ [CHR 0x22] @ ''users'' @ [CHR 0x22], [])
   \<and> InsertDataset_MustToSQL sample_env [] users_insert = Inr (''INSERT[default] '', [])
   \<and> UpdateDataset_MustToSQL sample_env users_update = Inr (''UPDATE[default]'', [])
   \<and> DeleteDataset_MustToSQL sample_env users_delete = Inr (''DELETE[default]'', [])
   \<and> TruncateDataset_MustToSQL sample_env (users_truncate\<lparr>err := Some (ErrOther ''boom'')\<rparr>)
       = Inl (ErrOther ''boom'')
   \<and> InsertDataset_MustToSQL sample_env [] (users_insert\<lparr>err := Some (ErrOther ''boom'')\<rparr>)
       = Inl (ErrOther ''boom'')
   \<and> UpdateDataset_MustToSQL sample_env (users_update\<lparr>err := Some (ErrOther ''boom'')\<rparr>)
       = Inl (ErrOther ''boom'')
   \<and> DeleteDataset_MustToSQL sample_env (users_delete\<lparr>err := Some (ErrOther ''boom'')\<rparr>)
       = Inl (ErrOther ''boom'')"
proof -
  note ok = MustToSQL_panics_iff_ToSQL_fails
    [of sample_env users_truncate _ "[]" users_insert _ users_update _ users_delete]
  note bad = MustToSQL_panics_iff_ToSQL_fails
    [of sample_env "users_truncate\<lparr>err := Some (ErrOther ''boom'')\<rparr>" "ErrOther ''boom''"
        "[]" "users_insert\<lparr>err := Some (ErrOther ''boom'')\<rparr>" "ErrOther ''boom''"
        "users_update\<lparr>err := Some (ErrOther ''boom'')\<rparr>" "ErrOther ''boom''"
        "users_delete\<lparr>err := Some (ErrOther ''boom'')\<rparr>" "ErrOther ''boom''"]
  from ok have
    "TruncateDataset_MustToSQL sample_env users_truncate
       = Inr (''TRUNCATE '' @ [CHR 0x22] @ ''users'' @ [CHR 0x22], [])"
    "InsertDataset_MustToSQL sample_env [] users_insert = Inr (''INSERT[default] '', [])"
    "UpdateDataset_MustToSQL sample_env users_update = Inr (''UPDATE[default]'', [])"
    "DeleteDataset_MustToSQL sample_env users_delete = Inr (''DELETE[default]'', [])"
    by (simp_all add: sample_truncate_sql sample_insert_sql sample_update_sql sample_delete_sql)
  moreover from bad have
    "TruncateDataset_MustToSQL sample_env (users_truncate\<lparr>err := Some (ErrOther ''boom'')\<rparr>)
       = Inl (ErrOther ''boom'')"
    "InsertDataset_MustToSQL sample_env [] (users_insert\<lparr>err := Some (ErrOther ''boom'')\<rparr>)
       = Inl (ErrOther ''boom'')"
    "UpdateDataset_MustToSQL sample_env (users_update\<lparr>err := Some (ErrOther ''boom'')\<rparr>)
       = Inl (ErrOther ''boom'')"
    "DeleteDataset_MustToSQL sample_env (users_delete\<lparr>err := Some (ErrOther ''boom'')\<rparr>)
       = Inl (ErrOther ''boom'')"
    by (simp_all add: sample_error_sql)
  ultimately show ?thesis by simp
qed

text \<open>
  C7. For an \<open>UpdateDataset\<close> or a \<open>DeleteDataset\<close>, \<open>Limit(n)\<close> with \<open>n > 0\<close> gives a
  builder whose clause record is the receiver's with the limit set to \<open>n\<close>, and \<open>Limit(0)\<close>
  gives what \<open>ClearLimit()\<close> gives, a clause record with no limit; both whatever limit the
  receiver had.
\<close>

theorem Limit_sets_or_clears:
  "(0 < n \<longrightarrow> uc_limit (clauses (UpdateDataset_Limit ud n)) = Some (UintArg n)
             \<and> UpdateDataset_Limit ud n = copy ud ((clauses ud)\<lparr>uc_limit := Some (UintArg n)\<rparr>))
   \<and> uc_limit (clauses (UpdateDataset_Limit ud 0)) = None
   \<and> UpdateDataset_Limit ud 0 = UpdateDataset_ClearLimit ud
   \<and> (0 < n \<longrightarrow> dc_limit (clauses (DeleteDataset_Limit dd n)) = Some (UintArg n)
             \<and> DeleteDataset_Limit dd n = copy dd ((clauses dd)\<lparr>dc_limit := Some (UintArg n)\<rparr>))
   \<and> dc_limit (clauses (DeleteDataset_Limit dd 0)) = None
   \<and> DeleteDataset_Limit dd 0 = DeleteDataset_ClearLimit dd"
  by (simp add: UpdateDataset_Limit_def UpdateDataset_ClearLimit_def UpdateClauses_SetLimit_def
      UpdateClauses_ClearLimit_def DeleteDataset_Limit_def DeleteDataset_ClearLimit_def
      DeleteClauses_SetLimit_def DeleteClauses_ClearLimit_def)

theorem Limit_sets_or_clears_witness:
  "(0::uint) < 5
   \<and> uc_limit (clauses (UpdateDataset_Limit (UpdateDataset_Limit users_update 9) 5)) = Some (UintArg 5)
   \<and> uc_limit (clauses (UpdateDataset_Limit (UpdateDataset_Limit users_update 9) 0)) = None
   \<and> dc_limit (clauses (DeleteDataset_Limit (DeleteDataset_LimitAll users_delete) 5)) = Some (UintArg 5)
   \<and> dc_limit (clauses (DeleteDataset_Limit (DeleteDataset_LimitAll users_delete) 0)) = None"
proof -
  have h: "(0::uint) < 5" by simp
  from Limit_sets_or_clears [of 5 "UpdateDataset_Limit users_update 9" "DeleteDataset_LimitAll users_delete"] h
  show ?thesis by blast
qed

text \<open>
  C8. \<open>Cascade()\<close> then \<open>Identity(s)\<close> and \<open>Identity(s)\<close> then \<open>Cascade()\<close> give the
  same clause record, the receiver's with the cascade flag set and the identity option \<open>s\<close>,
  and so the same \<open>ToSQL()\<close> result under any dialect renderer. Under a dialect that renders
  TRUNCATE as the spec describes, \<open>Truncate("users").Cascade().Identity("restart")\<close> renders,
  in either call order, the TRUNCATE clause, the quoted table name, the CASCADE fragment and
  the identity fragment, in that order, with no parameters and no error.
\<close>

theorem Cascade_Identity_any_order:
  "GetClauses (TruncateDataset_Identity (TruncateDataset_Cascade td) s)
     = GetClauses (TruncateDataset_Cascade (TruncateDataset_Identity td s))
   \<and> GetClauses (TruncateDataset_Identity (TruncateDataset_Cascade td) s)
     = (clauses td)\<lparr>tc_options := (tc_options (clauses td))\<lparr>Cascade := True, Identity := s\<rparr>\<rparr>
   \<and> TruncateDataset_ToSQL env (TruncateDataset_Identity (TruncateDataset_Cascade td) s)
     = TruncateDataset_ToSQL env (TruncateDataset_Cascade (TruncateDataset_Identity td s))
   \<and> (Truncate env [StringArg ''users''] = Inr b \<and> ToTruncateSQL env (Dialect b) = SpecTruncateSQL fr \<longrightarrow>
        TruncateDataset_ToSQL env (TruncateDataset_Identity (TruncateDataset_Cascade b) ''restart'')
          = (TruncateClause fr @ QuoteIdentifier fr ''users'' @ CascadeFragment fr
               @ IdentityFragment fr ''restart'', [], None)
        \<and> TruncateDataset_ToSQL env (TruncateDataset_Cascade (TruncateDataset_Identity b ''restart''))
          = (TruncateClause fr @ QuoteIdentifier fr ''users'' @ CascadeFragment fr
               @ IdentityFragment fr ''restart'', [], None))"
  using SpecTruncateSQL_users [of env b fr]
  by (simp add: GetClauses_def Cascade_Identity_clauses
      Cascade_Identity_commute [symmetric])

theorem Cascade_Identity_any_order_witness:
  "Truncate sample_env [StringArg ''users''] = Inr users_truncate
   \<and> ToTruncateSQL sample_env (Dialect users_truncate) = SpecTruncateSQL sample_fragments
   \<and> TruncateDataset_ToSQL sample_env
        (TruncateDataset_Identity (TruncateDataset_Cascade users_truncate) ''restart'')
       = (''TRUNCATE '' @ [CHR 0x22] @ ''users'' @ [CHR 0x22] @ '' CASCADE'' @ '' restart IDENTITY'',
          [], None)
   \<and> TruncateDataset_ToSQL sample_env
        (TruncateDataset_Cascade (TruncateDataset_Identity users_truncate ''restart''))
       = (''TRUNCATE '' @ [CHR 0x22] @ ''users'' @ [CHR 0x22] @ '' CASCADE'' @ '' restart IDENTITY'',
          [], None)"
proof -
  have h: "Truncate sample_env [StringArg ''users''] = Inr users_truncate
      \<and> ToTruncateSQL sample_env (Dialect users_truncate) = SpecTruncateSQL sample_fragments"
  proof
    show "Truncate sample_env [StringArg ''users''] = Inr users_truncate"
      by (rule users_truncate_built)
    show "ToTruncateSQL sample_env (Dialect users_truncate) = SpecTruncateSQL sample_fragments"
      by (simp add: sample_env_def)
  qed
  from Cascade_Identity_any_order
    [where env = sample_env and b = users_truncate and fr = sample_fragments] h
  have "TruncateDataset_ToSQL sample_env
        (TruncateDataset_Identity (TruncateDataset_Cascade users_truncate) ''restart'')
      = (TruncateClause sample_fragments @ QuoteIdentifier sample_fragments ''users''
           @ CascadeFragment sample_fragments @ IdentityFragment sample_fragments ''restart'', [], None)
     \<and> TruncateDataset_ToSQL sample_env
        (TruncateDataset_Cascade (TruncateDataset_Identity users_truncate ''restart''))
      = (TruncateClause sample_fragments @ QuoteIdentifier sample_fragments ''users''
           @ CascadeFragment sample_fragments @ IdentityFragment sample_fragments ''restart'', [], None)"
    by blast
  with h show ?thesis
    by (simp add: sample_fragments_def)
qed

text \<open>
  C9. \<open>Clone()\<close> called through a pointer returns a pointer to a fresh cell, leaves the
  existing builders as they were, and the builder in the fresh cell has the clause record,
  dialect, prepared flag and error of the receiver; for each of the four kinds its \<open>ToSQL()\<close>
  gives the same text, parameters and error as the receiver's.
\<close>

theorem Clone_observably_identical:
  "(Clone_call h p = Inr (h', p') \<longrightarrow>
      p' = length h \<and> p < p' \<and> take (length h) h' = h
      \<and> GetClauses (h' ! p') = GetClauses (h ! p) \<and> Dialect (h' ! p') = Dialect (h ! p)
      \<and> IsPrepared env (h' ! p') = IsPrepared env (h ! p) \<and> Error (h' ! p') = Error (h ! p))
   \<and> (Clone_call ht pt = Inr (ht', pt') \<longrightarrow>
      TruncateDataset_ToSQL env (ht' ! pt') = TruncateDataset_ToSQL env (ht ! pt))
   \<and> (Clone_call hi pn = Inr (hi', pn') \<longrightarrow>
      InsertDataset_ToSQL env hs (hi' ! pn') = InsertDataset_ToSQL env hs (hi ! pn))
   \<and> (Clone_call hu pu = Inr (hu', pu') \<longrightarrow>
      UpdateDataset_ToSQL env (hu' ! pu') = UpdateDataset_ToSQL env (hu ! pu))
   \<and> (Clone_call hx px = Inr (hx', px') \<longrightarrow>
      DeleteDataset_ToSQL env (hx' ! px') = DeleteDataset_ToSQL env (hx ! px))"
proof -
  have same: "h' ! p' = h ! p \<and> p' = length h \<and> p < p' \<and> take (length h) h' = h"
    if "Clone_call h p = Inr (h', p')"
    for h h' :: "('a, 'c) dataset list" and p p'
    using Clone_call_Inr [OF that] by simp
  show ?thesis
    using same [of h p h' p'] same [of ht pt ht' pt'] same [of hi pn hi' pn']
      same [of hu pu hu' pu'] same [of hx px hx' px']
    by auto
qed

theorem Clone_observably_identical_witness:
  "Clone_call [users_truncate] 0 = Inr ([users_truncate, users_truncate], 1)
   \<and> Clone_call [users_insert] 0 = Inr ([users_insert, users_insert], 1)
   \<and> Clone_call [users_update] 0 = Inr ([users_update, users_update], 1)
   \<and> Clone_call [users_delete] 0 = Inr ([users_delete, users_delete], 1)
   \<and> Error ([users_update, users_update] ! 1) = Error ([users_update] ! 0)
   \<and> TruncateDataset_ToSQL sample_env ([users_truncate, users_truncate] ! 1)
       = (''TRUNCATE '' @ [CHR 0x22] @ ''users'' @ [CHR 0x22], [], None)
   \<and> InsertDataset_ToSQL sample_env [] ([users_insert, users_insert] ! 1)
       = (''INSERT[default] '', [], None)
   \<and> UpdateDataset_ToSQL sample_env ([users_update, users_update] ! 1) = (''UPDATE[default]'', [], None)
   \<and> DeleteDataset_ToSQL sample_env ([users_delete, users_delete] ! 1) = (''DELETE[default]'', [], None)"
proof -
  have c: "Clone_call [users_truncate] 0 = Inr ([users_truncate, users_truncate], 1)"
    "Clone_call [users_insert] 0 = Inr ([users_insert, users_insert], 1)"
    "Clone_call [users_update] 0 = Inr ([users_update, users_update], 1)"
    "Clone_call [users_delete] 0 = Inr ([users_delete, users_delete], 1)"
    by (simp_all add: Clone_call_def new_def Clone_same)
  note w = Clone_observably_identical
    [where env = sample_env and h = "[users_update]" and p = 0
       and h' = "[users_update, users_update]" and p' = 1
       and ht = "[users_truncate]" and pt = 0 and ht' = "[users_truncate, users_truncate]" and pt' = 1
       and hi = "[users_insert]" and pn = 0 and hi' = "[users_insert, users_insert]" and pn' = 1
       and hs = "[]"
       and hu = "[users_update]" and pu = 0 and hu' = "[users_update, users_update]" and pu' = 1
       and hx = "[users_delete]" and px = 0 and hx' = "[users_delete, users_delete]" and px' = 1]
  from w c have
    "Error ([users_update, users_update] ! 1) = Error ([users_update] ! 0)"
    "TruncateDataset_ToSQL sample_env ([users_truncate, users_truncate] ! 1)
       = TruncateDataset_ToSQL sample_env ([users_truncate] ! 0)"
    "InsertDataset_ToSQL sample_env [] ([users_insert, users_insert] ! 1)
       = InsertDataset_ToSQL sample_env [] ([users_insert] ! 0)"
    "UpdateDataset_ToSQL sample_env ([users_update, users_update] ! 1)
       = UpdateDataset_ToSQL sample_env ([users_update] ! 0)"
    "DeleteDataset_ToSQL sample_env ([users_delete, users_delete] ! 1)
       = DeleteDataset_ToSQL sample_env ([users_delete] ! 0)"
    by blast+
  with c show ?thesis
    by (simp add: sample_truncate_sql sample_insert_sql sample_update_sql sample_delete_sql)
qed

text \<open>
  C10. \<open>FromQuery\<close> on a pointer to a \<open>SelectDataset\<close> whose dialect is the default writes
  the receiver's dialect into the struct the argument points to: the store of select datasets
  after the call is the one before with that one cell overwritten, no cell is added, the
  caller's pointer now reads the receiver's dialect, and the row source of the result is that
  same pointer.
\<close>

theorem FromQuery_adopts_in_place:
  "pn < length hi \<and> q < length hs \<and> Dialect (hs ! q) = GetDialect env ''default'' \<longrightarrow>
     (\<exists>hi' pn'.
        InsertDataset_call env hi hs pn (I_FromQuery (SelectDatasetPtr q))
          = Inr (hi', hs[q := (hs ! q)\<lparr>dialect := Dialect (hi ! pn)\<rparr>], pn')
        \<and> ic_from (GetClauses (hi' ! pn')) = Some (SelectDatasetPtr q))
     \<and> length (hs[q := (hs ! q)\<lparr>dialect := Dialect (hi ! pn)\<rparr>]) = length hs
     \<and> Dialect (hs[q := (hs ! q)\<lparr>dialect := Dialect (hi ! pn)\<rparr>] ! q) = Dialect (hi ! pn)"
  by (simp add: FromQuery_call_select Dialect_def GetClauses_def InsertClauses_SetFrom_def)

theorem FromQuery_adopts_in_place_witness:
  "(0::nat) < length [users_insert\<lparr>dialect := 1\<rparr>] \<and> (0::nat) < length [other_select]
   \<and> Dialect ([other_select] ! 0) = GetDialect sample_env ''default''
   \<and> Dialect ([other_select] ! 0) = 0
   \<and> (\<exists>hi' pn'. InsertDataset_call sample_env [users_insert\<lparr>dialect := 1\<rparr>] [other_select] 0
          (I_FromQuery (SelectDatasetPtr 0)) = Inr (hi', [other_select\<lparr>dialect := 1\<rparr>], pn'))
   \<and> Dialect ([other_select\<lparr>dialect := 1\<rparr>] ! 0) = 1"
proof -
  have h: "(0::nat) < length [users_insert\<lparr>dialect := 1\<rparr>] \<and> (0::nat) < length [other_select]
      \<and> Dialect ([other_select] ! 0) = GetDialect sample_env ''default''"
    by (simp add: Dialect_def sample_env_def other_select_def)
  from FromQuery_adopts_in_place
    [where env = sample_env and hi = "[users_insert\<lparr>dialect := 1\<rparr>]" and hs = "[other_select]"
       and pn = 0 and q = 0] h
  have "\<exists>hi' pn'. InsertDataset_call sample_env [users_insert\<lparr>dialect := 1\<rparr>] [other_select] 0
          (I_FromQuery (SelectDatasetPtr 0))
        = Inr (hi', [other_select][0 := ([other_select] ! 0)
                 \<lparr>dialect := Dialect ([users_insert\<lparr>dialect := 1\<rparr>] ! 0)\<rparr>], pn')"
    by blast
  with h show ?thesis
    by (simp add: Dialect_def other_select_def)
qed

end
